theory Spec2Isabelle
  imports Complex_Main "HOL-Library.Product_Lexorder"
begin

section \<open>Label queue pointer (server.py, api_label_queue_advance / back / set)\<close>

text \<open>
  The persisted queue state is the JSON object written by \<open>_write_queue\<close>; the pointer
  operations read and write its fields \<open>queue\<close> (a list of grid ids) and \<open>index\<close>.
  Python's unbounded \<open>int\<close> is \<open>int\<close>.
\<close>

record label_queue =
  queue :: "int list"
  index :: int

text \<open>
  A field of the request body of \<open>/api/label_queue/set\<close>: missing (\<open>None\<close>), present but
  rejected by \<open>int(...)\<close>, or an integer.
\<close>

datatype json_int = Absent | Unparseable | Num int

datatype py_error = IndexError | AssertionError | ValueError | LimitError | IOError | KeyError

text \<open>
  The subscript \<open>queue[idx]\<close>: positions \<open>0 .. len-1\<close> read forwards, \<open>-len .. -1\<close> read
  from the back, anything else raises.
\<close>

definition py_get :: "'a list \<Rightarrow> int \<Rightarrow> py_error + 'a" where
  "py_get xs i =
     (if 0 \<le> i \<and> i < int (length xs) then Inr (xs ! nat i)
      else if i < 0 \<and> - int (length xs) \<le> i then Inr (xs ! nat (int (length xs) + i))
      else Inl IndexError)"

text \<open>\<open>queue.index(gid)\<close>: the first position of \<open>gid\<close>, \<open>None\<close> where Python raises ValueError.\<close>

fun list_index :: "int list \<Rightarrow> int \<Rightarrow> nat option" where
  "list_index [] g = None"
| "list_index (x # xs) g =
     (if x = g then Some 0 else map_option Suc (list_index xs g))"

record queue_response =
  resp_index :: int
  resp_has_more :: bool
  resp_current :: "int option"
  resp_total :: nat

text \<open>
  Each operation writes the queue back before it builds its response, so the persisted
  state is the first component even where building the response raises.
\<close>

definition api_label_queue_advance :: "label_queue \<Rightarrow> label_queue \<times> (py_error + queue_response)" where
  "api_label_queue_advance q =
     (let idx = index q;
          qu = queue q;
          idx = (if idx < int (length qu) then idx + 1 else idx);
          q' = q\<lparr>index := idx\<rparr>;
          has_more = (idx < int (length qu))
      in (q',
          if has_more
          then (case py_get qu idx of
                  Inl e \<Rightarrow> Inl e
                | Inr c \<Rightarrow> Inr \<lparr>resp_index = idx, resp_has_more = has_more,
                                resp_current = Some c, resp_total = length qu\<rparr>)
          else Inr \<lparr>resp_index = idx, resp_has_more = has_more,
                    resp_current = None, resp_total = length qu\<rparr>))"

definition api_label_queue_back :: "label_queue \<Rightarrow> label_queue \<times> (py_error + queue_response)" where
  "api_label_queue_back q =
     (let idx = index q;
          qu = queue q;
          idx = (if idx > 0 then idx - 1 else idx);
          q' = q\<lparr>index := idx\<rparr>;
          has_more = (idx < int (length qu))
      in (q',
          if idx < int (length qu)
          then (case py_get qu idx of
                  Inl e \<Rightarrow> Inl e
                | Inr c \<Rightarrow> Inr \<lparr>resp_index = idx, resp_has_more = has_more,
                                resp_current = Some c, resp_total = length qu\<rparr>)
          else Inr \<lparr>resp_index = idx, resp_has_more = has_more,
                    resp_current = None, resp_total = length qu\<rparr>))"

text \<open>
  \<open>api_label_queue_set\<close>: a grid id, when given and the queue is not empty, overrides the
  requested index by the position of that id; every failure on the way falls back to the
  stored index; the result is clamped into \<open>[0, len(queue)]\<close>.
\<close>

definition api_label_queue_set ::
  "label_queue \<Rightarrow> json_int \<Rightarrow> json_int \<Rightarrow> label_queue \<times> queue_response" where
  "api_label_queue_set q req_index req_gid =
     (let qu = queue q;
          idx = (if req_gid \<noteq> Absent \<and> qu \<noteq> []
                 then (case req_gid of
                         Num g \<Rightarrow> (case list_index qu g of
                                      Some i \<Rightarrow> Num (int i)
                                    | None \<Rightarrow> Num (index q))
                       | _ \<Rightarrow> Num (index q))
                 else req_index);
          idx = (case idx of Num i \<Rightarrow> i | _ \<Rightarrow> index q);
          idx = (if idx < 0 then 0 else idx);
          idx = (if idx > int (length qu) then int (length qu) else idx);
          q' = q\<lparr>index := idx\<rparr>
      in (q',
          \<lparr>resp_index = idx, resp_has_more = (idx < int (length qu)),
           resp_current = (if idx < int (length qu) then Some (qu ! nat idx) else None),
           resp_total = length qu\<rparr>))"

text \<open>The invariant of the persisted pointer.\<close>

definition queue_inv :: "label_queue \<Rightarrow> bool" where
  "queue_inv q = (0 \<le> index q \<and> index q \<le> int (length (queue q)))"

section \<open>Data model (server.py, DataEngine)\<close>

text \<open>
  DuckDB \<open>BIGINT\<close>/\<open>INTEGER\<close> columns and Python ints are \<open>int\<close>. \<open>DOUBLE\<close> columns and Python
  floats are modelled by exact rationals: sums, averages and comparisons are those of the
  ordered field, rounding is not modelled. For integer-valued trip counts below \<open>2^53\<close> the
  additions performed by the code are exact in binary64 as well.
\<close>

definition YEARS :: "int list" where
  "YEARS = [2018, 2021, 2024]"

text \<open>One item of \<open>load_metadata\<close> (\<open>meta_by_id\<close> maps a grid id to its item).\<close>

record grid_meta =
  m_grid_id :: int
  lon :: rat
  lat :: rat
  area_name :: string
  city_name :: string

text \<open>A row of \<open>edges_by_o_{year}.parquet\<close> / \<open>edges_by_d_{year}.parquet\<close>.\<close>

record edge =
  o_grid :: int
  d_grid :: int
  num_total :: rat

text \<open>A row of \<open>hourly_{year}.parquet\<close>: grid_id, week, hour, out_total, in_total, total.\<close>

record hourly_row =
  h_grid_id :: int
  h_week :: int
  h_hour :: int
  h_out_total :: rat
  h_in_total :: rat
  h_total :: rat

text \<open>A row of \<open>totals_{year}.parquet\<close>: grid_id, out_total, in_total, total.\<close>

record totals_row =
  t_grid_id :: int
  t_out_total :: rat
  t_in_total :: rat
  t_total :: rat

text \<open>
  The artifact directory: one file per (kind, year), addressed by \<open>_parquet_path\<close>. A file
  that does not exist is \<open>None\<close>.
\<close>

record store =
  edges_by_o :: "int \<rightharpoonup> edge list"
  edges_by_d :: "int \<rightharpoonup> edge list"
  hourly :: "int \<rightharpoonup> hourly_row list"
  totals :: "int \<rightharpoonup> totals_row list"

section \<open>Heatmap summary (server.py, api_heat)\<close>

record heat_result =
  hv_values :: "(int \<times> rat) list"
  hv_q95 :: rat
  hv_max :: rat
  hv_n :: nat

text \<open>
  The loop over the rows of the totals artifact: rows whose grid has no metadata or fails a
  non-empty filter are skipped; the value is chosen by the metric.
\<close>

definition heat_items ::
  "(int \<rightharpoonup> grid_meta) \<Rightarrow> string \<Rightarrow> string \<Rightarrow> string \<Rightarrow> totals_row list \<Rightarrow> (int \<times> rat) list" where
  "heat_items meta metric city area rows =
     concat (map (\<lambda>r.
       case meta (t_grid_id r) of
         None \<Rightarrow> []
       | Some m \<Rightarrow>
           if city \<noteq> [] \<and> city_name m \<noteq> city then []
           else if area \<noteq> [] \<and> area_name m \<noteq> area then []
           else [(t_grid_id r,
                  if metric = ''total'' then t_total r
                  else if metric = ''in'' then t_in_total r else t_out_total r)]) rows)"

text \<open>
  \<open>vs[int(math.floor(0.95 * (len(vs)-1)))] if len(vs) > 1 else vs[0]\<close> on the ascending sort.
  The subscript is written with its range check.
\<close>

definition heat_q95 :: "rat list \<Rightarrow> py_error + rat" where
  "heat_q95 vs =
     (if length vs > 1
      then py_get vs \<lfloor>(95 / 100 :: rat) * of_int (int (length vs) - 1)\<rfloor>
      else py_get vs 0)"

definition api_heat ::
  "(int \<rightharpoonup> grid_meta) \<Rightarrow> string \<Rightarrow> string \<Rightarrow> string \<Rightarrow> totals_row list
     \<Rightarrow> py_error + heat_result" where
  "api_heat meta metric city area rows =
     (if metric \<notin> {''total'', ''in'', ''out''} then Inl ValueError
      else
        let items = heat_items meta metric city area rows in
        if items = [] then Inr \<lparr>hv_values = [], hv_q95 = 0, hv_max = 0, hv_n = 0\<rparr>
        else
          let vs = sort (map snd items) in
          case heat_q95 vs of
            Inl e \<Rightarrow> Inl e
          | Inr q \<Rightarrow>
              (case py_get vs (- 1) of
                 Inl e \<Rightarrow> Inl e
               | Inr mx \<Rightarrow>
                   Inr \<lparr>hv_values = items, hv_q95 = q, hv_max = mx, hv_n = length items\<rparr>))"

section \<open>Flow queries (server.py, DataEngine.flows_for_grid and api_flows)\<close>

text \<open>\<open>ORDER BY num_total DESC\<close> on (counterpart, num_total) rows, stable on the stored order.\<close>

definition order_desc :: "(int \<times> rat) list \<Rightarrow> (int \<times> rat) list" where
  "order_desc = sort_key (\<lambda>r. - snd r)"

text \<open>
  \<open>SUM(num_total) OVER (ORDER BY num_total DESC ROWS UNBOUNDED PRECEDING)\<close>: each row of the
  ordered input with the sum of the values up to and including it.
\<close>

fun running_sum :: "rat \<Rightarrow> (int \<times> rat) list \<Rightarrow> ((int \<times> rat) \<times> rat) list" where
  "running_sum acc [] = []"
| "running_sum acc (r # rs) = (r, acc + snd r) # running_sum (acc + snd r) rs"

text \<open>
  The two queries of one direction over the rows \<open>e\<close> incident to the grid. With coverage:
  the window over the descending order, the subquery ordered again, the rows with
  \<open>cs <= cov * tot\<close>, ordered again, \<open>LIMIT topk\<close>. Without: descending order, \<open>LIMIT topk\<close>.
  DuckDB rejects a negative \<open>LIMIT\<close>.
\<close>

definition select_edges :: "(int \<times> rat) list \<Rightarrow> rat \<Rightarrow> int \<Rightarrow> py_error + (int \<times> rat) list" where
  "select_edges e cov topk =
     (if topk < 0 then Inl LimitError
      else if cov > 0 then
        let tot = sum_list (map snd e);
            sub = sort_key (\<lambda>w. - snd (fst w)) (running_sum 0 (order_desc e));
            kept = map fst (filter (\<lambda>w. snd w \<le> cov * tot) sub)
        in Inr (take (nat topk) (order_desc kept))
      else Inr (take (nat topk) (order_desc e)))"


text \<open>
  \<open>SELECT d_grid, num_total FROM edges_by_o WHERE o_grid = ?\<close> and
  \<open>SELECT o_grid, num_total FROM edges_by_d WHERE d_grid = ?\<close>.
\<close>

definition incident_out :: "edge list \<Rightarrow> int \<Rightarrow> (int \<times> rat) list" where
  "incident_out rows grid_id =
     map (\<lambda>r. (d_grid r, num_total r)) (filter (\<lambda>r. o_grid r = grid_id) rows)"

definition incident_in :: "edge list \<Rightarrow> int \<Rightarrow> (int \<times> rat) list" where
  "incident_in rows grid_id =
     map (\<lambda>r. (o_grid r, num_total r)) (filter (\<lambda>r. d_grid r = grid_id) rows)"

text \<open>\<open>cov = float(cov or 0.0)\<close>, then clamped into \<open>[0, 1]\<close>.\<close>

definition clamp_cov :: "rat \<Rightarrow> rat" where
  "clamp_cov cov = (let c = (if cov < 0 then 0 else cov) in if c > 1 then 1 else c)"

text \<open>
  The first half of \<open>flows_for_grid\<close>: the dictionary \<open>result\<close> with the rows of each
  requested direction. Reading a file that does not exist raises.
\<close>

definition flows_rows ::
  "store \<Rightarrow> int \<Rightarrow> int \<Rightarrow> string \<Rightarrow> int \<Rightarrow> rat
     \<Rightarrow> py_error + ((int \<times> rat) list \<times> (int \<times> rat) list)" where
  "flows_rows st year grid_id direction topk cov =
     (if direction \<notin> {''out'', ''in'', ''both''} then Inl AssertionError
      else
        let cov = clamp_cov cov;
            out_res =
              (if direction \<in> {''out'', ''both''}
               then (case edges_by_o st year of
                       None \<Rightarrow> Inl IOError
                     | Some rows \<Rightarrow>
                         select_edges (incident_out rows grid_id) cov topk)
               else Inr [])
        in case out_res of
             Inl err \<Rightarrow> Inl err
           | Inr out_rows \<Rightarrow>
               (let in_res =
                      (if direction \<in> {''in'', ''both''}
                       then (case edges_by_d st year of
                               None \<Rightarrow> Inl IOError
                             | Some rows \<Rightarrow>
                                 select_edges (incident_in rows grid_id) cov topk)
                       else Inr [])
                in case in_res of
                     Inl err \<Rightarrow> Inl err
                   | Inr in_rows \<Rightarrow> Inr (out_rows, in_rows)))"

record flow_edge =
  fe_o_grid :: int
  fe_d_grid :: int
  fe_num_total :: rat
  fe_o :: "grid_meta option"
  fe_d :: "grid_meta option"

record flows_result =
  center :: "grid_meta option"
  out_edges :: "flow_edge list"
  in_edges :: "flow_edge list"

text \<open>The inner function \<open>coord\<close>: the coordinates of a grid, \<open>None\<close> without metadata.\<close>

definition coord :: "(int \<rightharpoonup> grid_meta) \<Rightarrow> int \<Rightarrow> grid_meta option" where
  "coord meta gid =
     (case meta gid of
        None \<Rightarrow> None
      | Some m \<Rightarrow> Some \<lparr>m_grid_id = gid, lon = lon m, lat = lat m,
                        area_name = area_name m, city_name = city_name m\<rparr>)"

definition flows_for_grid ::
  "store \<Rightarrow> (int \<rightharpoonup> grid_meta) \<Rightarrow> int \<Rightarrow> int \<Rightarrow> string \<Rightarrow> int \<Rightarrow> rat
     \<Rightarrow> py_error + flows_result" where
  "flows_for_grid st meta year grid_id direction topk cov =
     (case flows_rows st year grid_id direction topk cov of
        Inl err \<Rightarrow> Inl err
      | Inr (out_rows, in_rows) \<Rightarrow>
          let c = meta grid_id in
          Inr \<lparr>center = c,
               out_edges =
                 concat (map (\<lambda>(d, v).
                   case coord meta d of
                     None \<Rightarrow> []
                   | Some tgt \<Rightarrow> [\<lparr>fe_o_grid = grid_id, fe_d_grid = d, fe_num_total = v,
                                    fe_o = c, fe_d = Some tgt\<rparr>]) out_rows),
               in_edges =
                 concat (map (\<lambda>(og, v).
                   case coord meta og of
                     None \<Rightarrow> []
                   | Some src \<Rightarrow> [\<lparr>fe_o_grid = og, fe_d_grid = grid_id, fe_num_total = v,
                                    fe_o = Some src, fe_d = c\<rparr>]) in_rows)\<rparr>)"

text \<open>
  The \<open>year\<close> parameter of \<open>/api/flows\<close>: the string \<open>all\<close>, a string that \<open>int(...)\<close> accepts, or
  one it rejects.
\<close>

datatype year_param = YearAll | YearNum int | YearBad

datatype flows_response =
    GridIdRequired
  | NoIndexesAvailable
  | IndexMissing "int list"
  | YearsResult "(int \<times> flows_result) list"
  | SingleResult flows_result
  | ServerError py_error

definition edges_exist :: "store \<Rightarrow> int \<Rightarrow> bool" where
  "edges_exist st y = (edges_by_o st y \<noteq> None \<and> edges_by_d st y \<noteq> None)"

text \<open>
  The loop of the \<open>all\<close> mode: the years so far (\<open>data\<close>, whose keys are \<open>available\<close>), stopping
  at the first query that raises.
\<close>

fun flows_all_years ::
  "store \<Rightarrow> (int \<rightharpoonup> grid_meta) \<Rightarrow> int \<Rightarrow> string \<Rightarrow> int \<Rightarrow> rat \<Rightarrow> int list
     \<Rightarrow> py_error + (int \<times> flows_result) list" where
  "flows_all_years st meta grid_id direction topk cov [] = Inr []"
| "flows_all_years st meta grid_id direction topk cov (y # ys) =
     (if edges_exist st y
      then (case flows_for_grid st meta y grid_id direction topk cov of
              Inl err \<Rightarrow> Inl err
            | Inr r \<Rightarrow>
                (case flows_all_years st meta grid_id direction topk cov ys of
                   Inl err \<Rightarrow> Inl err
                 | Inr rest \<Rightarrow> Inr ((y, r) # rest)))
      else flows_all_years st meta grid_id direction topk cov ys)"

definition api_flows ::
  "store \<Rightarrow> (int \<rightharpoonup> grid_meta) \<Rightarrow> year_param \<Rightarrow> int \<Rightarrow> string \<Rightarrow> int \<Rightarrow> rat
     \<Rightarrow> flows_response" where
  "api_flows st meta year_p grid_id direction topk cov =
     (if grid_id = 0 then GridIdRequired
      else case year_p of
        YearAll \<Rightarrow>
          (case flows_all_years st meta grid_id direction topk cov YEARS of
             Inl err \<Rightarrow> ServerError err
           | Inr data \<Rightarrow> if data = [] then NoIndexesAvailable else YearsResult data)
      | YearBad \<Rightarrow> ServerError ValueError
      | YearNum y \<Rightarrow>
          if \<not> edges_exist st y then IndexMissing [y]
          else (case flows_for_grid st meta y grid_id direction topk cov of
                  Inl err \<Rightarrow> ServerError err
                | Inr r \<Rightarrow> SingleResult r))"

section \<open>Hourly series (server.py, DataEngine.hourly_series_for_grid and api_hourly)\<close>

text \<open>The value stored under one year: each key holds the list of the weeks kept, one week.\<close>

record hourly_series =
  hs_out :: "rat list list"
  hs_in :: "rat list list"
  hs_total :: "rat list list"

text \<open>\<open>SELECT ... WHERE grid_id = ? ORDER BY week, hour\<close>.\<close>

definition grid_hourly_rows :: "hourly_row list \<Rightarrow> int \<Rightarrow> hourly_row list" where
  "grid_hourly_rows rows g =
     sort_key (\<lambda>r. (h_week r, h_hour r)) (filter (\<lambda>r. h_grid_id r = g) rows)"

text \<open>
  The body of the loop over the rows: a row whose week has no key in \<open>week_map\<close> is skipped,
  as is an hour outside \<open>0..23\<close>; otherwise the three slots of that hour are overwritten.
\<close>

definition fill_slot ::
  "int list \<Rightarrow> rat list \<times> rat list \<times> rat list \<Rightarrow> hourly_row \<Rightarrow> rat list \<times> rat list \<times> rat list" where
  "fill_slot weeks tmp r =
     (case tmp of (out_t, in_t, tot) \<Rightarrow>
        if h_week r \<notin> set weeks then tmp
        else if 0 \<le> h_hour r \<and> h_hour r < 24
        then (out_t[nat (h_hour r) := h_out_total r],
              in_t[nat (h_hour r) := h_in_total r],
              tot[nat (h_hour r) := h_total r])
        else tmp)"

definition year_series :: "hourly_row list \<Rightarrow> int \<Rightarrow> hourly_series" where
  "year_series all_rows g =
     (let rows = grid_hourly_rows all_rows g;
          weeks_all = sort (remdups (map h_week rows));
          weeks = take 1 weeks_all
      in case foldl (fill_slot weeks) (replicate 24 0, replicate 24 0, replicate 24 0) rows of
           (out_t, in_t, tot) \<Rightarrow> \<lparr>hs_out = [out_t], hs_in = [in_t], hs_total = [tot]\<rparr>)"

text \<open>
  \<open>years = years or YEARS\<close>: the empty list stands for both \<open>None\<close> and \<open>[]\<close>. A year
  without hourly artifact is skipped by \<open>continue\<close>.
\<close>

definition hourly_series_for_grid :: "store \<Rightarrow> int \<Rightarrow> int list \<Rightarrow> (int \<rightharpoonup> hourly_series)" where
  "hourly_series_for_grid st g years =
     foldl (\<lambda>out y. case hourly st y of
                       None \<Rightarrow> out
                     | Some rows \<Rightarrow> out(y \<mapsto> year_series rows g))
       Map.empty (if years = [] then YEARS else years)"

datatype hourly_response =
    HourlyGridIdRequired
  | HourlyError py_error
  | HourlyResult "int \<rightharpoonup> hourly_series"

text \<open>
  The loop of \<open>api_hourly\<close>: for each year with an hourly artifact the engine is asked for
  all years and the entry of that year is taken by subscript.
\<close>

fun api_hourly_loop ::
  "store \<Rightarrow> int \<Rightarrow> int list \<Rightarrow> (int \<rightharpoonup> hourly_series) \<Rightarrow> py_error + (int \<rightharpoonup> hourly_series)" where
  "api_hourly_loop st g [] out = Inr out"
| "api_hourly_loop st g (y # ys) out =
     (if hourly st y \<noteq> None
      then (case hourly_series_for_grid st g [] y of
              None \<Rightarrow> Inl KeyError
            | Some s \<Rightarrow> api_hourly_loop st g ys (out(y \<mapsto> s)))
      else api_hourly_loop st g ys out)"

definition api_hourly :: "store \<Rightarrow> int \<Rightarrow> hourly_response" where
  "api_hourly st grid_id =
     (if grid_id = 0 then HourlyGridIdRequired
      else case api_hourly_loop st grid_id YEARS Map.empty of
             Inl e \<Rightarrow> HourlyError e
           | Inr out \<Rightarrow> HourlyResult out)"

text \<open>The earliest ISO week among the rows of a grid (meaningful when the grid has rows).\<close>

definition earliest_week :: "hourly_row list \<Rightarrow> int \<Rightarrow> int" where
  "earliest_week rows g = Min (set (map h_week (filter (\<lambda>r. h_grid_id r = g) rows)))"

section \<open>Low-traffic filter (server.py, api_label_queue_start)\<close>

text \<open>\<open>AVG\<close> over a group; a group of a \<open>GROUP BY\<close> is never empty.\<close>

definition avg :: "rat list \<Rightarrow> rat" where
  "avg xs = sum_list xs / of_nat (length xs)"

text \<open>
  The CTE \<open>base\<close>: \<open>SELECT grid_id, hour, AVG(total) ... GROUP BY grid_id, hour\<close> over
  (grid_id, hour, total) rows.
\<close>

definition avg_by_grid_hour :: "(int \<times> int \<times> rat) list \<Rightarrow> ((int \<times> int) \<times> rat) list" where
  "avg_by_grid_hour rs =
     map (\<lambda>k. (k, avg (map (\<lambda>r. snd (snd r)) (filter (\<lambda>r. (fst r, fst (snd r)) = k) rs))))
       (remdups (map (\<lambda>r. (fst r, fst (snd r))) rs))"

text \<open>The CTE \<open>full24\<close>: \<open>gids CROSS JOIN range(0,24)\<close>.\<close>

definition full24 :: "int list \<Rightarrow> (int \<times> int) list" where
  "full24 gids = concat (map (\<lambda>g. map (\<lambda>h. (g, int h)) [0..<24]) gids)"

text \<open>
  The CTE \<open>h\<close>: \<open>full24 LEFT JOIN base USING (grid_id, hour)\<close> with
  \<open>COALESCE(avg_total, 0)\<close>.
\<close>

definition hours_filled :: "(int \<times> int) list \<Rightarrow> ((int \<times> int) \<times> rat) list \<Rightarrow> (int \<times> int \<times> rat) list" where
  "hours_filled f base =
     concat (map (\<lambda>k. let ms = filter (\<lambda>b. fst b = k) base
                       in if ms = [] then [(fst k, snd k, 0)]
                          else map (\<lambda>b. (fst k, snd k, snd b)) ms) f)"

text \<open>
  The CTE \<open>zr\<close>: per grid, the number of its rows of \<open>h\<close> with \<open>avg_total <= low_value\<close>,
  divided by 24.
\<close>

definition low_ratio :: "(int \<times> int \<times> rat) list \<Rightarrow> rat \<Rightarrow> (int \<times> rat) list" where
  "low_ratio hs low_value =
     map (\<lambda>g. (g, of_nat (length (filter (\<lambda>r. fst r = g \<and> snd (snd r) \<le> low_value) hs)) / 24))
       (remdups (map fst hs))"

text \<open>\<open>SELECT grid_id FROM zr WHERE low_ratio >= ?\<close>.\<close>

definition ratio_at_least :: "(int \<times> rat) list \<Rightarrow> rat \<Rightarrow> int list" where
  "ratio_at_least zr thr = map fst (filter (\<lambda>z. snd z \<ge> thr) zr)"

text \<open>
  The query over the hourly artifact. With the temporary table \<open>pool\<close> (\<open>use_pool\<close>) the base
  rows are joined with the pool and the grids are those of the pool; in the fallback the
  grids are those of the artifact.
\<close>

definition low_filter_query ::
  "bool \<Rightarrow> int list \<Rightarrow> hourly_row list \<Rightarrow> int list \<Rightarrow> rat \<Rightarrow> rat \<Rightarrow> int list" where
  "low_filter_query use_pool pool rows weeks low_value low_pct =
     (let base_raw = map (\<lambda>r. (h_grid_id r, h_hour r, h_total r))
                       (filter (\<lambda>r. h_week r \<in> set weeks) rows)
      in if use_pool then
           let joined = concat (map (\<lambda>br. map (\<lambda>p. br) (filter (\<lambda>p. fst br = p) pool)) base_raw);
               base = avg_by_grid_hour joined
           in ratio_at_least (low_ratio (hours_filled (full24 pool) base) low_value) (low_pct / 100)
         else
           let base = avg_by_grid_hour base_raw;
               gids = remdups (map (\<lambda>b. fst (fst b)) base)
           in ratio_at_least (low_ratio (hours_filled (full24 gids) base) low_value) (low_pct / 100))"

text \<open>
  The year whose hourly artifact is used: \<open>filter_year\<close> first when given, then \<open>YEARS\<close>; the
  first with an hourly artifact.
\<close>

definition choose_hourly_year :: "store \<Rightarrow> int option \<Rightarrow> int option" where
  "choose_hourly_year st filter_year =
     (let years_try = (case filter_year of None \<Rightarrow> [] | Some y \<Rightarrow> [y]);
          years_try = years_try @ filter (\<lambda>y. y \<notin> set years_try) YEARS
      in find (\<lambda>y. hourly st y \<noteq> None) years_try)"

text \<open>
  \<open>bad_set\<close>: \<open>low_pct\<close> is clamped into \<open>[0, 100]\<close>, a negative \<open>low_value\<close> becomes 0; the
  filter runs only for a non-empty pool and a positive \<open>low_pct\<close>, only when some year has
  an hourly artifact, and only when that artifact has at least one week.
\<close>

definition low_filter_bad_set ::
  "store \<Rightarrow> bool \<Rightarrow> int list \<Rightarrow> int option \<Rightarrow> rat \<Rightarrow> rat option \<Rightarrow> int list" where
  "low_filter_bad_set st use_pool pool filter_year low_value low_pct =
     (let low_pct = map_option (\<lambda>p. max 0 (min 100 p)) low_pct;
          low_value = (if low_value < 0 then 0 else low_value)
      in case low_pct of
           None \<Rightarrow> []
         | Some p \<Rightarrow>
             if pool \<noteq> [] \<and> p > 0 then
               (case choose_hourly_year st filter_year of
                  None \<Rightarrow> []
                | Some y \<Rightarrow>
                    (case hourly st y of
                       None \<Rightarrow> []
                     | Some rows \<Rightarrow>
                         let weeks = sort (remdups (map h_week rows))
                         in if weeks \<noteq> []
                            then low_filter_query use_pool pool rows weeks low_value p
                            else []))
             else [])"

text \<open>
  The candidates flagged as low traffic, and the pool that remains
  (\<open>pool = [gid for gid in pool if gid not in bad_set]\<close>).
\<close>

definition low_traffic_grids ::
  "store \<Rightarrow> bool \<Rightarrow> int list \<Rightarrow> int option \<Rightarrow> rat \<Rightarrow> rat option \<Rightarrow> int list" where
  "low_traffic_grids st use_pool pool filter_year low_value low_pct =
     filter (\<lambda>g. g \<in> set (low_filter_bad_set st use_pool pool filter_year low_value low_pct)) pool"

definition pool_after_low_filter ::
  "store \<Rightarrow> bool \<Rightarrow> int list \<Rightarrow> int option \<Rightarrow> rat \<Rightarrow> rat option \<Rightarrow> int list" where
  "pool_after_low_filter st use_pool pool filter_year low_value low_pct =
     filter (\<lambda>g. g \<notin> set (low_filter_bad_set st use_pool pool filter_year low_value low_pct)) pool"

section \<open>Index builder (server.py, DataEngine._build_year, build_totals_for_year, ensure_built)\<close>

text \<open>
  A row of the view \<open>src\<close>: the raw columns cast to
  \<open>date_dt VARCHAR, hour INTEGER, o_grid BIGINT, d_grid BIGINT, num_total DOUBLE\<close>.
\<close>

record raw_row =
  r_date_dt :: string
  r_hour :: int
  r_o_grid :: int
  r_d_grid :: int
  r_num_total :: rat

text \<open>\<open>SELECT key, SUM(val) ... GROUP BY key\<close>: one row per distinct key.\<close>

definition group_sum :: "('r \<Rightarrow> 'k) \<Rightarrow> ('r \<Rightarrow> rat) \<Rightarrow> 'r list \<Rightarrow> ('k \<times> rat) list" where
  "group_sum key val rows =
     map (\<lambda>k. (k, sum_list (map val (filter (\<lambda>r. key r = k) rows)))) (remdups (map key rows))"

text \<open>
  A row of \<open>l FULL OUTER JOIN r ON l.key = r.key\<close>: a matching pair, or a row of one side
  whose columns of the other side are \<open>NULL\<close>.
\<close>

datatype ('a, 'b) join_row = Both 'a 'b | LeftOnly 'a | RightOnly 'b

definition full_outer_join ::
  "('k \<times> 'a) list \<Rightarrow> ('k \<times> 'b) list \<Rightarrow> ('k \<times> 'a, 'k \<times> 'b) join_row list" where
  "full_outer_join ls rs =
     concat (map (\<lambda>l. let ms = filter (\<lambda>r. fst r = fst l) rs
                       in if ms = [] then [LeftOnly l] else map (\<lambda>r. Both l r) ms) ls)
     @ map RightOnly (filter (\<lambda>r. \<not> list_ex (\<lambda>l. fst l = fst r) ls) rs)"

text \<open>The view \<open>edges\<close> (and \<open>e\<close>): \<open>SUM(num_total) ... GROUP BY o_grid, d_grid\<close>.\<close>

definition edges_view :: "raw_row list \<Rightarrow> edge list" where
  "edges_view src =
     map (\<lambda>g. \<lparr>o_grid = fst (fst g), d_grid = snd (fst g), num_total = snd g\<rparr>)
       (group_sum (\<lambda>r. (r_o_grid r, r_d_grid r)) r_num_total src)"

text \<open>
  The view \<open>gt\<close>: \<open>gout\<close> (sums by origin) full-outer-joined with \<open>gin\<close> (sums by
  destination), \<open>COALESCE(..., 0)\<close> on the missing side,
  \<open>total = COALESCE(out_total, 0) + COALESCE(in_total, 0)\<close>. \<open>_build_year\<close> takes both sums
  from the view \<open>e\<close>, \<open>build_totals_for_year\<close> from the two edge files.
\<close>

definition gt_row :: "(int \<times> rat, int \<times> rat) join_row \<Rightarrow> totals_row" where
  "gt_row j =
     (case j of
        Both l r \<Rightarrow> \<lparr>t_grid_id = fst l, t_out_total = snd l, t_in_total = snd r,
                     t_total = snd l + snd r\<rparr>
      | LeftOnly l \<Rightarrow> \<lparr>t_grid_id = fst l, t_out_total = snd l, t_in_total = 0,
                       t_total = snd l + 0\<rparr>
      | RightOnly r \<Rightarrow> \<lparr>t_grid_id = fst r, t_out_total = 0, t_in_total = snd r,
                        t_total = 0 + snd r\<rparr>)"

definition totals_view :: "edge list \<Rightarrow> edge list \<Rightarrow> totals_row list" where
  "totals_view e_out e_in =
     map gt_row (full_outer_join (group_sum o_grid num_total e_out)
                                 (group_sum d_grid num_total e_in))"

text \<open>
  The view \<open>t\<close>: rows whose date has 8 characters and parses; the others are dropped.
  \<open>parse_date\<close> stands for DuckDB's \<open>TRY_STRPTIME(..., '%Y%m%d')::DATE\<close> (a date as a day
  number) and \<open>week_of\<close> for \<open>DATE_PART('week', dt)\<close>; both are parameters.
  A row of \<open>t\<close> is (dt, hour, o_grid, d_grid, num_total).
\<close>

definition t_view ::
  "(string \<Rightarrow> int option) \<Rightarrow> raw_row list \<Rightarrow> (int \<times> int \<times> int \<times> int \<times> rat) list" where
  "t_view parse_date src =
     concat (map (\<lambda>r.
       case (if length (r_date_dt r) = 8 then parse_date (r_date_dt r) else None) of
         None \<Rightarrow> []
       | Some dt \<Rightarrow> [(dt, r_hour r, r_o_grid r, r_d_grid r, r_num_total r)]) src)"

text \<open>
  The views \<open>out_by\<close> and \<open>in_by\<close> (keys (grid_id, dt, hour)), and \<open>merged\<close>: their full
  outer join with \<open>COALESCE(..., 0)\<close>; a row of \<open>merged\<close> is
  ((grid_id, dt, hour), out_total, in_total).
\<close>

definition merged_row ::
  "((int \<times> int \<times> int) \<times> rat, (int \<times> int \<times> int) \<times> rat) join_row
     \<Rightarrow> (int \<times> int \<times> int) \<times> rat \<times> rat" where
  "merged_row j =
     (case j of
        Both l r \<Rightarrow> (fst l, snd l, snd r)
      | LeftOnly l \<Rightarrow> (fst l, snd l, 0)
      | RightOnly r \<Rightarrow> (fst r, 0, snd r))"

definition merged_view ::
  "(int \<times> int \<times> int \<times> int \<times> rat) list \<Rightarrow> ((int \<times> int \<times> int) \<times> rat \<times> rat) list" where
  "merged_view t =
     map merged_row
       (full_outer_join
          (group_sum (\<lambda>(dt, h, og, dg, n). (og, dt, h)) (\<lambda>(dt, h, og, dg, n). n) t)
          (group_sum (\<lambda>(dt, h, og, dg, n). (dg, dt, h)) (\<lambda>(dt, h, og, dg, n). n) t))"

text \<open>
  The view \<open>hourly\<close>: \<open>merged\<close> grouped by (grid_id, week, hour) with
  \<open>SUM(out_total)\<close>, \<open>SUM(in_total)\<close> and \<open>SUM(out_total + in_total)\<close>.
\<close>

definition hourly_key :: "(int \<Rightarrow> int) \<Rightarrow> (int \<times> int \<times> int) \<times> rat \<times> rat \<Rightarrow> int \<times> int \<times> int" where
  "hourly_key week_of m = (fst (fst m), week_of (fst (snd (fst m))), snd (snd (fst m)))"

definition hourly_view ::
  "(string \<Rightarrow> int option) \<Rightarrow> (int \<Rightarrow> int) \<Rightarrow> raw_row list \<Rightarrow> hourly_row list" where
  "hourly_view parse_date week_of src =
     (let merged = merged_view (t_view parse_date src)
      in map (\<lambda>k.
           let grp = filter (\<lambda>m. hourly_key week_of m = k) merged
           in \<lparr>h_grid_id = fst k, h_week = fst (snd k), h_hour = snd (snd k),
               h_out_total = sum_list (map (\<lambda>m. fst (snd m)) grp),
               h_in_total = sum_list (map (\<lambda>m. snd (snd m)) grp),
               h_total = sum_list (map (\<lambda>m. fst (snd m) + snd (snd m)) grp)\<rparr>)
         (remdups (map (hourly_key week_of) merged)))"

text \<open>
  The four files written by a build, in the order of the \<open>COPY ... ORDER BY\<close> statements.
\<close>

definition edges_by_o_file :: "raw_row list \<Rightarrow> edge list" where
  "edges_by_o_file src = sort_key o_grid (edges_view src)"

definition edges_by_d_file :: "raw_row list \<Rightarrow> edge list" where
  "edges_by_d_file src = sort_key d_grid (edges_view src)"

definition hourly_file ::
  "(string \<Rightarrow> int option) \<Rightarrow> (int \<Rightarrow> int) \<Rightarrow> raw_row list \<Rightarrow> hourly_row list" where
  "hourly_file parse_date week_of src =
     sort_key (\<lambda>r. (h_grid_id r, h_week r, h_hour r)) (hourly_view parse_date week_of src)"

definition totals_file :: "edge list \<Rightarrow> edge list \<Rightarrow> totals_row list" where
  "totals_file e_out e_in = sort_key t_grid_id (totals_view e_out e_in)"

datatype artifact_kind = EdgesByO | EdgesByD | Hourly | Totals

text \<open>
  How a build ends early: \<open>_read_csv_sql\<close> raises for a year without column map (no raw
  source), before anything is touched; a \<open>COPY\<close> statement raises (the views are lazy, so
  the query runs, and the file is written, only there); \<open>read_parquet\<close> of a missing file
  raises.
\<close>

datatype build_error = MissingSource | CopyFailed artifact_kind | MissingArtifact

text \<open>
  Each artifact is replaced by \<open>path.unlink(missing_ok=True)\<close> followed by
  \<open>COPY (...) TO path\<close>. \<open>fails k\<close> says that the \<open>COPY\<close> of kind \<open>k\<close> raises; the exception
  is not caught, so the build stops there with the file already unlinked.
\<close>

definition replace_edges_by_o ::
  "(artifact_kind \<Rightarrow> bool) \<Rightarrow> int \<Rightarrow> edge list \<Rightarrow> store \<Rightarrow> store \<times> build_error option" where
  "replace_edges_by_o fails y new st =
     (let st1 = st\<lparr>edges_by_o := (edges_by_o st)(y := None)\<rparr>
      in if fails EdgesByO then (st1, Some (CopyFailed EdgesByO))
         else (st1\<lparr>edges_by_o := (edges_by_o st1)(y \<mapsto> new)\<rparr>, None))"

definition replace_edges_by_d ::
  "(artifact_kind \<Rightarrow> bool) \<Rightarrow> int \<Rightarrow> edge list \<Rightarrow> store \<Rightarrow> store \<times> build_error option" where
  "replace_edges_by_d fails y new st =
     (let st1 = st\<lparr>edges_by_d := (edges_by_d st)(y := None)\<rparr>
      in if fails EdgesByD then (st1, Some (CopyFailed EdgesByD))
         else (st1\<lparr>edges_by_d := (edges_by_d st1)(y \<mapsto> new)\<rparr>, None))"

definition replace_hourly ::
  "(artifact_kind \<Rightarrow> bool) \<Rightarrow> int \<Rightarrow> hourly_row list \<Rightarrow> store \<Rightarrow> store \<times> build_error option" where
  "replace_hourly fails y new st =
     (let st1 = st\<lparr>hourly := (hourly st)(y := None)\<rparr>
      in if fails Hourly then (st1, Some (CopyFailed Hourly))
         else (st1\<lparr>hourly := (hourly st1)(y \<mapsto> new)\<rparr>, None))"

definition replace_totals ::
  "(artifact_kind \<Rightarrow> bool) \<Rightarrow> int \<Rightarrow> totals_row list \<Rightarrow> store \<Rightarrow> store \<times> build_error option" where
  "replace_totals fails y new st =
     (let st1 = st\<lparr>totals := (totals st)(y := None)\<rparr>
      in if fails Totals then (st1, Some (CopyFailed Totals))
         else (st1\<lparr>totals := (totals st1)(y \<mapsto> new)\<rparr>, None))"

text \<open>Statements in sequence: the next one runs only when the previous one did not raise.\<close>

definition and_then ::
  "store \<times> build_error option \<Rightarrow> (store \<Rightarrow> store \<times> build_error option)
     \<Rightarrow> store \<times> build_error option" where
  "and_then r f = (case snd r of None \<Rightarrow> f (fst r) | Some e \<Rightarrow> r)"

text \<open>
  \<open>_build_year\<close>. \<open>src y\<close> is the raw source of the year, \<open>None\<close> when the year has no
  column map. The totals are always rebuilt, from the view \<open>e\<close> over the raw source.
\<close>

definition build_year ::
  "(string \<Rightarrow> int option) \<Rightarrow> (int \<Rightarrow> int) \<Rightarrow> (artifact_kind \<Rightarrow> bool) \<Rightarrow> (int \<rightharpoonup> raw_row list)
     \<Rightarrow> store \<Rightarrow> int \<Rightarrow> bool \<Rightarrow> bool \<Rightarrow> bool \<Rightarrow> store \<times> build_error option" where
  "build_year parse_date week_of fails src st y build_edges_o build_edges_d build_hourly =
     (case src y of
        None \<Rightarrow> (st, Some MissingSource)
      | Some rows \<Rightarrow>
          and_then
            (and_then
               (and_then
                  (if (build_edges_o \<or> build_edges_d) \<and> build_edges_o
                   then replace_edges_by_o fails y (edges_by_o_file rows) st
                   else (st, None))
                  (\<lambda>st. if (build_edges_o \<or> build_edges_d) \<and> build_edges_d
                        then replace_edges_by_d fails y (edges_by_d_file rows) st
                        else (st, None)))
               (\<lambda>st. if build_hourly
                     then replace_hourly fails y (hourly_file parse_date week_of rows) st
                     else (st, None)))
            (\<lambda>st. replace_totals fails y (totals_file (edges_view rows) (edges_view rows)) st))"

text \<open>\<open>ensure_built\<close>: a year is built when one of its three artifacts is missing.\<close>

fun ensure_built ::
  "(string \<Rightarrow> int option) \<Rightarrow> (int \<Rightarrow> int) \<Rightarrow> (artifact_kind \<Rightarrow> bool) \<Rightarrow> (int \<rightharpoonup> raw_row list)
     \<Rightarrow> store \<Rightarrow> int list \<Rightarrow> store \<times> build_error option" where
  "ensure_built parse_date week_of fails src st [] = (st, None)"
| "ensure_built parse_date week_of fails src st (y # ys) =
     (let need_edges_o = (edges_by_o st y = None);
          need_edges_d = (edges_by_d st y = None);
          need_hourly = (hourly st y = None)
      in and_then
           (if need_edges_o \<or> need_edges_d \<or> need_hourly
            then build_year parse_date week_of fails src st y need_edges_o need_edges_d need_hourly
            else (st, None))
           (\<lambda>st. ensure_built parse_date week_of fails src st ys))"

text \<open>
  \<open>build_totals_for_year\<close>: missing edge files are built first (without hourly), then the
  totals are computed from the two edge files.
\<close>

definition build_totals_for_year ::
  "(string \<Rightarrow> int option) \<Rightarrow> (int \<Rightarrow> int) \<Rightarrow> (artifact_kind \<Rightarrow> bool) \<Rightarrow> (int \<rightharpoonup> raw_row list)
     \<Rightarrow> store \<Rightarrow> int \<Rightarrow> store \<times> build_error option" where
  "build_totals_for_year parse_date week_of fails src st y =
     and_then
       (if edges_by_o st y = None \<or> edges_by_d st y = None
        then build_year parse_date week_of fails src st y
               (edges_by_o st y = None) (edges_by_d st y = None) False
        else (st, None))
       (\<lambda>st. case edges_by_o st y of
               None \<Rightarrow> (st, Some MissingArtifact)
             | Some e_out \<Rightarrow>
                 (case edges_by_d st y of
                    None \<Rightarrow> (st, Some MissingArtifact)
                  | Some e_in \<Rightarrow> replace_totals fails y (totals_file e_out e_in) st))"

text \<open>Whether the file of a kind exists for a year.\<close>

definition artifact_exists :: "store \<Rightarrow> artifact_kind \<Rightarrow> int \<Rightarrow> bool" where
  "artifact_exists st k y =
     (case k of
        EdgesByO \<Rightarrow> edges_by_o st y \<noteq> None
      | EdgesByD \<Rightarrow> edges_by_d st y \<noteq> None
      | Hourly \<Rightarrow> hourly st y \<noteq> None
      | Totals \<Rightarrow> totals st y \<noteq> None)"

section \<open>Example data\<close>

text \<open>
  The scenario of the specification: year 2021 holds the edges \<open>(100, 200, 5)\<close> and
  \<open>(100, 300, 15)\<close>; grids 100 and 200 have metadata, grid 300 has none.
\<close>

definition ex_meta :: "int \<rightharpoonup> grid_meta" where
  "ex_meta g =
     (if g = 100 then Some \<lparr>m_grid_id = 100, lon = 113, lat = 23, area_name = ''a'', city_name = ''c''\<rparr>
      else if g = 200 then Some \<lparr>m_grid_id = 200, lon = 114, lat = 22, area_name = ''b'', city_name = ''c''\<rparr>
      else None)"

definition ex_store :: store where
  "ex_store =
     \<lparr>edges_by_o = [2021 \<mapsto> [\<lparr>o_grid = 100, d_grid = 200, num_total = 5\<rparr>,
                               \<lparr>o_grid = 100, d_grid = 300, num_total = 15\<rparr>]],
      edges_by_d = [2021 \<mapsto> [\<lparr>o_grid = 100, d_grid = 200, num_total = 5\<rparr>,
                               \<lparr>o_grid = 100, d_grid = 300, num_total = 15\<rparr>]],
      hourly = Map.empty,
      totals = Map.empty\<rparr>"

text \<open>
  An hourly artifact for 2021 only: grid 100 has a row in week 3 (hour 5) and a row in
  week 2 (hour 7); grid 200 has a row in week 1.
\<close>

definition ex_hourly_rows :: "hourly_row list" where
  "ex_hourly_rows =
     [\<lparr>h_grid_id = 100, h_week = 2, h_hour = 7, h_out_total = 4, h_in_total = 1, h_total = 5\<rparr>,
      \<lparr>h_grid_id = 100, h_week = 3, h_hour = 5, h_out_total = 2, h_in_total = 1, h_total = 3\<rparr>,
      \<lparr>h_grid_id = 200, h_week = 1, h_hour = 7, h_out_total = 9, h_in_total = 9, h_total = 18\<rparr>]"

definition ex_hourly_store :: store where
  "ex_hourly_store =
     \<lparr>edges_by_o = Map.empty, edges_by_d = Map.empty,
      hourly = [2021 \<mapsto> ex_hourly_rows], totals = Map.empty\<rparr>"


text \<open>
  The raw rows of the scenario (two trips from grid 100 at hour 8 of the same day), and a
  store in which 2021 has its edge files and totals published but no hourly file.
\<close>

definition ex_raw :: "int \<rightharpoonup> raw_row list" where
  "ex_raw =
     [2021 \<mapsto>
        [\<lparr>r_date_dt = ''20210104'', r_hour = 8, r_o_grid = 100, r_d_grid = 200, r_num_total = 5\<rparr>,
         \<lparr>r_date_dt = ''20210104'', r_hour = 8, r_o_grid = 100, r_d_grid = 300, r_num_total = 15\<rparr>]]"

definition ex_published_store :: store where
  "ex_published_store =
     \<lparr>edges_by_o = [2021 \<mapsto> [\<lparr>o_grid = 100, d_grid = 200, num_total = 5\<rparr>,
                               \<lparr>o_grid = 100, d_grid = 300, num_total = 15\<rparr>]],
      edges_by_d = [2021 \<mapsto> [\<lparr>o_grid = 100, d_grid = 200, num_total = 5\<rparr>,
                               \<lparr>o_grid = 100, d_grid = 300, num_total = 15\<rparr>]],
      hourly = Map.empty,
      totals = [2021 \<mapsto> [\<lparr>t_grid_id = 100, t_out_total = 20, t_in_total = 0, t_total = 20\<rparr>,
                           \<lparr>t_grid_id = 200, t_out_total = 0, t_in_total = 5, t_total = 5\<rparr>,
                           \<lparr>t_grid_id = 300, t_out_total = 0, t_in_total = 15, t_total = 15\<rparr>]]\<rparr>"

definition ex_empty_store :: store where
  "ex_empty_store =
     \<lparr>edges_by_o = Map.empty, edges_by_d = Map.empty, hourly = Map.empty, totals = Map.empty\<rparr>"

section \<open>Theorems\<close>

lemma advance_state:
  "fst (api_label_queue_advance q) =
     q\<lparr>index := (if index q < int (length (queue q)) then index q + 1 else index q)\<rparr>"
  by (simp add: api_label_queue_advance_def Let_def)

lemma back_state:
  "fst (api_label_queue_back q) = q\<lparr>index := (if index q > 0 then index q - 1 else index q)\<rparr>"
  by (simp add: api_label_queue_back_def Let_def)

lemma set_inv: "queue_inv (fst (api_label_queue_set q ri rg))"
  by (simp add: api_label_queue_set_def queue_inv_def Let_def split: json_int.splits option.splits)

lemma set_queue: "queue (fst (api_label_queue_set q ri rg)) = queue q"
  by (simp add: api_label_queue_set_def Let_def)

lemma set_clamps:
  "index (fst (api_label_queue_set q (Num i) Absent)) = max 0 (min i (int (length (queue q))))"
  by (simp add: api_label_queue_set_def Let_def max_def min_def)

text \<open>
  C10. From a persisted state with \<open>0 \<le> index \<le> len(queue)\<close>, advance and back leave the
  queue unchanged and keep the index within \<open>[0, len(queue)]\<close>; set leaves the queue
  unchanged and puts the index within \<open>[0, len(queue)]\<close> whatever was requested, a requested
  integer index \<open>i\<close> becoming \<open>max 0 (min i len(queue))\<close>.
\<close>

theorem queue_pointer_ops_preserve_bounds:
  assumes "queue_inv q"
  shows "queue_inv (fst (api_label_queue_advance q))
       \<and> queue (fst (api_label_queue_advance q)) = queue q
       \<and> queue_inv (fst (api_label_queue_back q))
       \<and> queue (fst (api_label_queue_back q)) = queue q
       \<and> queue_inv (fst (api_label_queue_set q ri rg))
       \<and> queue (fst (api_label_queue_set q ri rg)) = queue q
       \<and> index (fst (api_label_queue_set q (Num i) Absent))
           = max 0 (min i (int (length (queue q))))"
proof -
  from assms have adv: "queue_inv (fst (api_label_queue_advance q))"
    by (simp add: advance_state queue_inv_def)
  from assms have bck: "queue_inv (fst (api_label_queue_back q))"
    by (simp add: back_state queue_inv_def)
  show ?thesis
    using adv bck set_inv set_queue set_clamps
    by (simp add: advance_state back_state)
qed

theorem queue_pointer_ops_preserve_bounds_witness:
  "queue_inv \<lparr>queue = [7, 8, 9], index = 3\<rparr>
   \<and> index (fst (api_label_queue_advance \<lparr>queue = [7, 8, 9], index = 3\<rparr>)) = 3
   \<and> index (fst (api_label_queue_back \<lparr>queue = [7, 8, 9], index = 3\<rparr>)) = 2
   \<and> index (fst (api_label_queue_set \<lparr>queue = [7, 8, 9], index = 3\<rparr> (Num 12) Absent)) = 3
   \<and> queue_inv (fst (api_label_queue_set \<lparr>queue = [7, 8, 9], index = 3\<rparr> (Num (- 4)) Absent))"
proof -
  have h: "queue_inv \<lparr>queue = [7, 8, 9], index = 3\<rparr>"
    by (simp add: queue_inv_def)
  from queue_pointer_ops_preserve_bounds [OF h, of "Num (- 4)" Absent 12] h
  show ?thesis
    by (simp add: advance_state back_state)
qed

subsection \<open>Heatmap percentile\<close>

lemma q95_index_bounds:
  assumes "1 < n"
  shows "0 \<le> \<lfloor>(95 / 100 :: rat) * of_int (int n - 1)\<rfloor>"
    and "\<lfloor>(95 / 100 :: rat) * of_int (int n - 1)\<rfloor> < int n"
    and "\<lfloor>(95 / 100 :: rat) * of_int (int n - 1)\<rfloor> = (19 * (int n - 1)) div 20"
proof -
  let ?x = "(95 / 100 :: rat) * of_int (int n - 1)"
  have x0: "0 \<le> ?x" using assms by simp
  then show "0 \<le> \<lfloor>?x\<rfloor>" by simp
  have "?x \<le> of_int (int n - 1)" using assms by simp
  then have "\<lfloor>?x\<rfloor> \<le> \<lfloor>(of_int (int n - 1) :: rat)\<rfloor>" by (rule floor_mono)
  then have "\<lfloor>?x\<rfloor> \<le> int n - 1" by (simp only: floor_of_int)
  then show "\<lfloor>?x\<rfloor> < int n" by simp
  have "?x = of_int (19 * (int n - 1)) / of_int 20" by simp
  then have "\<lfloor>?x\<rfloor> = \<lfloor>(of_int (19 * (int n - 1)) :: rat) / of_int 20\<rfloor>" by simp
  also have "\<dots> = (19 * (int n - 1)) div 20" by (rule floor_divide_of_int_eq)
  finally show "\<lfloor>?x\<rfloor> = (19 * (int n - 1)) div 20" .
qed

lemma heat_q95_value:
  assumes "vs \<noteq> []"
  shows "heat_q95 vs =
     Inr (if length vs > 1 then vs ! nat \<lfloor>(95 / 100 :: rat) * of_int (int (length vs) - 1)\<rfloor>
          else vs ! 0)"
proof (cases "length vs > 1")
  case True
  from q95_index_bounds(1,2)[OF True] True show ?thesis
    by (simp add: heat_q95_def py_get_def)
next
  case False
  with assms show ?thesis
    by (simp add: heat_q95_def py_get_def)
qed

lemma py_get_last: "vs \<noteq> [] \<Longrightarrow> py_get vs (- 1) = Inr (last vs)"
  by (cases vs rule: rev_cases) (simp_all add: py_get_def nth_append)

lemma api_heat_value:
  assumes "metric \<in> {''total'', ''in'', ''out''}"
    and "heat_items meta metric city area rows \<noteq> []"
  shows "api_heat meta metric city area rows =
     Inr \<lparr>hv_values = heat_items meta metric city area rows,
          hv_q95 = (let vs = sort (map snd (heat_items meta metric city area rows))
                    in if length vs > 1
                       then vs ! nat \<lfloor>(95 / 100 :: rat) * of_int (int (length vs) - 1)\<rfloor>
                       else vs ! 0),
          hv_max = last (sort (map snd (heat_items meta metric city area rows))),
          hv_n = length (heat_items meta metric city area rows)\<rparr>"
proof -
  let ?items = "heat_items meta metric city area rows"
  let ?vs = "sort (map snd ?items)"
  have ne: "?vs \<noteq> []" using assms(2) by (metis length_0_conv length_map length_sort)
  have m: "\<not> metric \<notin> {''total'', ''in'', ''out''}" using assms(1) by blast
  show ?thesis
    unfolding api_heat_def Let_def if_not_P[OF m] using assms(2)
    by (simp only: heat_q95_value[OF ne] py_get_last[OF ne] if_False sum.case Let_def)
qed

text \<open>
  C7. For a valid metric and a non-empty filtered value set of size \<open>n\<close>, \<open>api_heat\<close> answers
  with those values, and its \<open>q95\<close> is the element at index \<open>floor(0.95 * (n - 1))\<close> of the
  ascending sort when \<open>n > 1\<close> (an index inside the list, equal to \<open>19 * (n - 1) div 20\<close>), the
  single element when \<open>n = 1\<close>, and \<open>1\<close> when the sorted values are \<open>[1, 2]\<close>.
\<close>

theorem heat_q95_nearest_rank:
  assumes "metric \<in> {''total'', ''in'', ''out''}"
    and "heat_items meta metric city area rows \<noteq> []"
  shows "\<exists>r. api_heat meta metric city area rows = Inr r
     \<and> hv_values r = heat_items meta metric city area rows
     \<and> (let vs = sort (map snd (hv_values r)); n = length vs in
          (1 < n \<longrightarrow> hv_q95 r = vs ! nat \<lfloor>(95 / 100 :: rat) * of_nat (n - 1)\<rfloor>
                    \<and> nat \<lfloor>(95 / 100 :: rat) * of_nat (n - 1)\<rfloor> = (19 * (n - 1)) div 20
                    \<and> (19 * (n - 1)) div 20 < n)
        \<and> (n = 1 \<longrightarrow> hv_q95 r = snd (hd (hv_values r)))
        \<and> (vs = [1, 2] \<longrightarrow> hv_q95 r = 1))"
proof -
  let ?items = "heat_items meta metric city area rows"
  let ?vs = "sort (map snd ?items)"
  let ?n = "length ?vs"
  have big: "1 < ?n \<Longrightarrow> nat \<lfloor>(95 / 100 :: rat) * of_nat (?n - 1)\<rfloor> = (19 * (?n - 1)) div 20
      \<and> (19 * (?n - 1)) div 20 < ?n
      \<and> \<lfloor>(95 / 100 :: rat) * of_nat (?n - 1)\<rfloor> = \<lfloor>(95 / 100 :: rat) * of_int (int ?n - 1)\<rfloor>"
  proof -
    assume a: "1 < ?n"
    have e: "(of_nat (?n - 1) :: rat) = of_int (int ?n - 1)" using a by (simp add: of_nat_diff)
    have "nat \<lfloor>(95 / 100 :: rat) * of_int (int ?n - 1)\<rfloor> = nat ((19 * (int ?n - 1)) div 20)"
      using q95_index_bounds(3)[OF a] by simp
    also have "\<dots> = (19 * (?n - 1)) div 20"
      using a by (simp add: nat_div_distrib nat_mult_distrib nat_diff_distrib)
    finally show ?thesis using a e by auto
  qed
  have one: "?n = 1 \<Longrightarrow> ?vs ! 0 = snd (hd ?items)"
  proof -
    assume "?n = 1"
    then obtain x where x: "?items = [x]" by (auto simp: length_Suc_conv)
    then show ?thesis by simp
  qed
  have two: "?vs = [1, 2] \<Longrightarrow> ?vs ! nat \<lfloor>(95 / 100 :: rat) * of_int (int ?n - 1)\<rfloor> = 1 \<and> 1 < ?n"
    by simp
  show ?thesis
    apply (rule exI[of _ "\<lparr>hv_values = ?items,
          hv_q95 = (let vs = ?vs
                    in if length vs > 1
                       then vs ! nat \<lfloor>(95 / 100 :: rat) * of_int (int (length vs) - 1)\<rfloor>
                       else vs ! 0),
          hv_max = last ?vs, hv_n = length ?items\<rparr>"])
    apply (rule conjI)
     apply (rule api_heat_value[OF assms])
    using big one two apply (simp add: Let_def)
    done
qed

theorem heat_q95_nearest_rank_witness:
  "''total'' \<in> {''total'', ''in'', ''out''}
   \<and> heat_items (\<lambda>g. Some \<lparr>m_grid_id = g, lon = 0, lat = 0, area_name = ''a'', city_name = ''c''\<rparr>)
         ''total'' [] []
         [\<lparr>t_grid_id = 10, t_out_total = 1, t_in_total = 1, t_total = 2\<rparr>,
          \<lparr>t_grid_id = 20, t_out_total = 1, t_in_total = 0, t_total = 1\<rparr>] \<noteq> []
   \<and> (\<exists>r. api_heat (\<lambda>g. Some \<lparr>m_grid_id = g, lon = 0, lat = 0, area_name = ''a'', city_name = ''c''\<rparr>)
         ''total'' [] []
         [\<lparr>t_grid_id = 10, t_out_total = 1, t_in_total = 1, t_total = 2\<rparr>,
          \<lparr>t_grid_id = 20, t_out_total = 1, t_in_total = 0, t_total = 1\<rparr>] = Inr r
        \<and> hv_values r = [(10, 2), (20, 1)] \<and> hv_q95 r = 1)"
proof -
  let ?meta = "\<lambda>g. Some \<lparr>m_grid_id = g, lon = 0, lat = 0, area_name = ''a'', city_name = ''c''\<rparr>"
  let ?rows = "[\<lparr>t_grid_id = 10, t_out_total = 1, t_in_total = 1, t_total = 2\<rparr>,
          \<lparr>t_grid_id = 20, t_out_total = 1, t_in_total = 0, t_total = 1\<rparr>]"
  have items: "heat_items ?meta ''total'' [] [] ?rows = [(10, 2), (20, 1)]"
    by (simp add: heat_items_def)
  have h1: "''total'' \<in> {''total'', ''in'', ''out''}" by simp
  have h2: "heat_items ?meta ''total'' [] [] ?rows \<noteq> []" by (simp add: items)
  from heat_q95_nearest_rank [OF h1 h2]
  obtain r where r: "api_heat ?meta ''total'' [] [] ?rows = Inr r"
      "hv_values r = heat_items ?meta ''total'' [] [] ?rows"
      "sort (map snd (hv_values r)) = [1, 2] \<longrightarrow> hv_q95 r = 1"
    by (auto simp: Let_def)
  from r(2,3) have "hv_q95 r = 1" by (simp add: items)
  with r(1,2) h1 h2 show ?thesis by (simp add: items)
qed

subsection \<open>Flow queries\<close>

lemma select_edges_length:
  "select_edges e cov topk = Inr xs \<Longrightarrow> 0 \<le> topk \<and> int (length xs) \<le> topk"
  by (auto simp: select_edges_def Let_def split: if_splits)

lemma select_edges_total:
  "0 \<le> topk \<Longrightarrow> \<exists>xs. select_edges e cov topk = Inr xs"
  by (simp add: select_edges_def Let_def)

lemma flows_rows_length:
  assumes "flows_rows st year g direction topk cov = Inr (a, b)"
  shows "int (length a) \<le> topk \<and> int (length b) \<le> topk"
  using assms
  unfolding flows_rows_def Let_def
  by (auto split: if_splits option.splits sum.splits dest!: select_edges_length)

lemma length_concat_opt:
  "length (concat (map (\<lambda>x. case f x of None \<Rightarrow> [] | Some y \<Rightarrow> [g x y]) xs)) \<le> length xs"
  by (induction xs) (auto split: option.splits)

lemma coord_None: "coord meta g = None \<longleftrightarrow> meta g = None"
  by (simp add: coord_def split: option.splits)

lemma out_edges_enrich:
  "map (\<lambda>e. (fe_d_grid e, fe_num_total e))
     (concat (map (\<lambda>(d, v). case coord meta d of None \<Rightarrow> []
        | Some tgt \<Rightarrow> [\<lparr>fe_o_grid = g, fe_d_grid = d, fe_num_total = v, fe_o = c, fe_d = Some tgt\<rparr>]) rows))
   = filter (\<lambda>r. meta (fst r) \<noteq> None) rows"
  by (induction rows) (auto simp: coord_None split: option.splits)

lemma in_edges_enrich:
  "map (\<lambda>e. (fe_o_grid e, fe_num_total e))
     (concat (map (\<lambda>(og, v). case coord meta og of None \<Rightarrow> []
        | Some src \<Rightarrow> [\<lparr>fe_o_grid = og, fe_d_grid = g, fe_num_total = v, fe_o = Some src, fe_d = c\<rparr>]) rows))
   = filter (\<lambda>r. meta (fst r) \<noteq> None) rows"
  by (induction rows) (auto simp: coord_None split: option.splits)

lemma flows_for_grid_Inr:
  assumes "flows_for_grid st meta year g direction topk cov = Inr r"
  shows "\<exists>out_rows in_rows.
      flows_rows st year g direction topk cov = Inr (out_rows, in_rows)
    \<and> map (\<lambda>e. (fe_d_grid e, fe_num_total e)) (out_edges r)
        = filter (\<lambda>r. meta (fst r) \<noteq> None) out_rows
    \<and> map (\<lambda>e. (fe_o_grid e, fe_num_total e)) (in_edges r)
        = filter (\<lambda>r. meta (fst r) \<noteq> None) in_rows"
  using assms
  by (auto simp: flows_for_grid_def Let_def out_edges_enrich in_edges_enrich split: sum.splits)

text \<open>
  C4. Whenever \<open>flows_for_grid\<close> answers, each direction's edge list has at most \<open>topk\<close>
  entries, with coverage enabled or disabled, and every returned counterpart has metadata: the
  returned edges are the selected rows whose counterpart is in \<open>meta_by_id\<close>, in order, the
  others being dropped (so the count can be lower than \<open>topk\<close>).
\<close>

theorem flows_topk_and_metadata:
  assumes "flows_for_grid st meta year g direction topk cov = Inr r"
  shows "int (length (out_edges r)) \<le> topk
       \<and> int (length (in_edges r)) \<le> topk
       \<and> (\<forall>e \<in> set (out_edges r). meta (fe_d_grid e) \<noteq> None)
       \<and> (\<forall>e \<in> set (in_edges r). meta (fe_o_grid e) \<noteq> None)
       \<and> (\<exists>out_rows in_rows.
             flows_rows st year g direction topk cov = Inr (out_rows, in_rows)
           \<and> map (\<lambda>e. (fe_d_grid e, fe_num_total e)) (out_edges r)
               = filter (\<lambda>r. meta (fst r) \<noteq> None) out_rows
           \<and> map (\<lambda>e. (fe_o_grid e, fe_num_total e)) (in_edges r)
               = filter (\<lambda>r. meta (fst r) \<noteq> None) in_rows)"
proof -
  from flows_for_grid_Inr[OF assms] obtain out_rows in_rows where
    fr: "flows_rows st year g direction topk cov = Inr (out_rows, in_rows)"
    and o: "map (\<lambda>e. (fe_d_grid e, fe_num_total e)) (out_edges r)
        = filter (\<lambda>r. meta (fst r) \<noteq> None) out_rows"
    and i: "map (\<lambda>e. (fe_o_grid e, fe_num_total e)) (in_edges r)
        = filter (\<lambda>r. meta (fst r) \<noteq> None) in_rows"
    by blast
  from flows_rows_length[OF fr] have lo: "int (length out_rows) \<le> topk" and li: "int (length in_rows) \<le> topk"
    by simp_all
  have "length (out_edges r) = length (filter (\<lambda>r. meta (fst r) \<noteq> None) out_rows)"
    using o by (metis length_map)
  also have "\<dots> \<le> length out_rows" by simp
  finally have 1: "int (length (out_edges r)) \<le> topk" using lo by simp
  have "length (in_edges r) = length (filter (\<lambda>r. meta (fst r) \<noteq> None) in_rows)"
    using i by (metis length_map)
  also have "\<dots> \<le> length in_rows" by simp
  finally have 2: "int (length (in_edges r)) \<le> topk" using li by simp
  have 3: "\<forall>e \<in> set (out_edges r). meta (fe_d_grid e) \<noteq> None"
  proof
    fix e assume "e \<in> set (out_edges r)"
    then have "(fe_d_grid e, fe_num_total e) \<in> set (map (\<lambda>e. (fe_d_grid e, fe_num_total e)) (out_edges r))"
      by (rule imageI[of e "set (out_edges r)" "\<lambda>e. (fe_d_grid e, fe_num_total e)", unfolded set_map[symmetric]])
    then show "meta (fe_d_grid e) \<noteq> None" unfolding o by simp
  qed
  have 4: "\<forall>e \<in> set (in_edges r). meta (fe_o_grid e) \<noteq> None"
  proof
    fix e assume "e \<in> set (in_edges r)"
    then have "(fe_o_grid e, fe_num_total e) \<in> set (map (\<lambda>e. (fe_o_grid e, fe_num_total e)) (in_edges r))"
      by (rule imageI[of e "set (in_edges r)" "\<lambda>e. (fe_o_grid e, fe_num_total e)", unfolded set_map[symmetric]])
    then show "meta (fe_o_grid e) \<noteq> None" unfolding i by simp
  qed
  from 1 2 3 4 fr o i show ?thesis by blast
qed

lemma flows_rows_total:
  assumes "edges_exist st y" "direction \<in> {''out'', ''in'', ''both''}" "0 \<le> topk"
  shows "\<exists>a b. flows_rows st y g direction topk cov = Inr (a, b)"
proof -
  from assms(1) obtain ro rd where ro: "edges_by_o st y = Some ro" and rd: "edges_by_d st y = Some rd"
    by (auto simp: edges_exist_def)
  from assms(3) have t: "\<not> topk < 0" by simp
  from assms(2) show ?thesis
    unfolding flows_rows_def Let_def ro rd
    by (auto simp: select_edges_def Let_def t)
qed

lemma flows_for_grid_total:
  assumes "edges_exist st y" "direction \<in> {''out'', ''in'', ''both''}" "0 \<le> topk"
  shows "\<exists>r. flows_for_grid st meta y g direction topk cov = Inr r"
proof -
  from flows_rows_total[OF assms] obtain a b where
    "flows_rows st y g direction topk cov = Inr (a, b)" by blast
  then show ?thesis by (simp add: flows_for_grid_def Let_def)
qed

lemma flows_all_years_ok:
  assumes "direction \<in> {''out'', ''in'', ''both''}" "0 \<le> topk"
  shows "\<exists>data. flows_all_years st meta g direction topk cov ys = Inr data
     \<and> map fst data = filter (edges_exist st) ys
     \<and> (\<forall>(y, r) \<in> set data. flows_for_grid st meta y g direction topk cov = Inr r)"
proof (induction ys)
  case Nil
  then show ?case by simp
next
  case (Cons y ys)
  then obtain data where d: "flows_all_years st meta g direction topk cov ys = Inr data"
     "map fst data = filter (edges_exist st) ys"
     "\<forall>(y, r) \<in> set data. flows_for_grid st meta y g direction topk cov = Inr r" by blast
  show ?case
  proof (cases "edges_exist st y")
    case True
    from flows_for_grid_total[OF True assms] obtain r where
      r: "flows_for_grid st meta y g direction topk cov = Inr r" by blast
    with d True show ?thesis by simp
  next
    case False
    with d show ?thesis by simp
  qed
qed

text \<open>
  C8. For a flows request with a grid id, a valid direction and a non-negative \<open>topk\<close>: with
  \<open>year = all\<close> the answer maps exactly the years of \<open>YEARS\<close> whose two edge artifacts exist,
  in order, each to the result of its own query, and it is the failure
  \<open>no indexes available\<close> when there is no such year; with a single year whose artifacts are
  absent the answer is the failure \<open>index missing\<close> carrying that year, and otherwise the
  result of the query.
\<close>

theorem api_flows_year_modes:
  assumes "grid_id \<noteq> 0" "direction \<in> {''out'', ''in'', ''both''}" "0 \<le> topk"
  shows "(filter (edges_exist st) YEARS = [] \<longrightarrow>
            api_flows st meta YearAll grid_id direction topk cov = NoIndexesAvailable)
       \<and> (filter (edges_exist st) YEARS \<noteq> [] \<longrightarrow>
            (\<exists>data. api_flows st meta YearAll grid_id direction topk cov = YearsResult data
               \<and> map fst data = filter (edges_exist st) YEARS
               \<and> (\<forall>(y, r) \<in> set data.
                     flows_for_grid st meta y grid_id direction topk cov = Inr r)))
       \<and> (\<not> edges_exist st y \<longrightarrow>
            api_flows st meta (YearNum y) grid_id direction topk cov = IndexMissing [y])
       \<and> (edges_exist st y \<longrightarrow>
            (\<exists>r. flows_for_grid st meta y grid_id direction topk cov = Inr r
               \<and> api_flows st meta (YearNum y) grid_id direction topk cov = SingleResult r))"
proof -
  from flows_all_years_ok[OF assms(2,3), of st meta grid_id cov YEARS] obtain data where
    d: "flows_all_years st meta grid_id direction topk cov YEARS = Inr data"
     "map fst data = filter (edges_exist st) YEARS"
     "\<forall>(y, r) \<in> set data. flows_for_grid st meta y grid_id direction topk cov = Inr r" by blast
  have a: "filter (edges_exist st) YEARS = [] \<longrightarrow>
            api_flows st meta YearAll grid_id direction topk cov = NoIndexesAvailable"
  proof
    assume "filter (edges_exist st) YEARS = []"
    with d(2) have "data = []" by simp
    with assms(1) d(1) show "api_flows st meta YearAll grid_id direction topk cov = NoIndexesAvailable"
      by (simp add: api_flows_def)
  qed
  have b: "filter (edges_exist st) YEARS \<noteq> [] \<longrightarrow>
            (\<exists>data. api_flows st meta YearAll grid_id direction topk cov = YearsResult data
               \<and> map fst data = filter (edges_exist st) YEARS
               \<and> (\<forall>(y, r) \<in> set data.
                     flows_for_grid st meta y grid_id direction topk cov = Inr r))"
  proof
    assume ne: "filter (edges_exist st) YEARS \<noteq> []"
    with d(2) have "data \<noteq> []" by auto
    with assms(1) d(1) have "api_flows st meta YearAll grid_id direction topk cov = YearsResult data"
      by (simp add: api_flows_def)
    with d(2,3) show "\<exists>data. api_flows st meta YearAll grid_id direction topk cov = YearsResult data
               \<and> map fst data = filter (edges_exist st) YEARS
               \<and> (\<forall>(y, r) \<in> set data.
                     flows_for_grid st meta y grid_id direction topk cov = Inr r)" by blast
  qed
  have c: "\<not> edges_exist st y \<longrightarrow>
            api_flows st meta (YearNum y) grid_id direction topk cov = IndexMissing [y]"
    using assms(1) by (simp add: api_flows_def)
  have e: "edges_exist st y \<longrightarrow>
            (\<exists>r. flows_for_grid st meta y grid_id direction topk cov = Inr r
               \<and> api_flows st meta (YearNum y) grid_id direction topk cov = SingleResult r)"
  proof
    assume ex: "edges_exist st y"
    from flows_for_grid_total[OF ex assms(2,3)] obtain r where
      "flows_for_grid st meta y grid_id direction topk cov = Inr r" by blast
    with ex assms(1) show "\<exists>r. flows_for_grid st meta y grid_id direction topk cov = Inr r
               \<and> api_flows st meta (YearNum y) grid_id direction topk cov = SingleResult r"
      by (simp add: api_flows_def)
  qed
  from a b c e show ?thesis by blast
qed


















lemma select_edges_disabled:
  "0 \<le> topk \<Longrightarrow> select_edges e 0 topk = Inr (take (nat topk) (order_desc e))"
  by (simp add: select_edges_def)



theorem flows_topk_and_metadata_witness:
  "flows_for_grid ex_store ex_meta 2021 100 ''out'' 2 0 =
     Inr \<lparr>center = ex_meta 100,
          out_edges = [\<lparr>fe_o_grid = 100, fe_d_grid = 200, fe_num_total = 5,
                        fe_o = ex_meta 100, fe_d = ex_meta 200\<rparr>],
          in_edges = []\<rparr>
   \<and> flows_rows ex_store 2021 100 ''out'' 2 0 = Inr ([(300, 15), (200, 5)], [])
   \<and> ex_meta 300 = None"
proof -
  have rows: "flows_rows ex_store 2021 100 ''out'' 2 0 = Inr ([(300, 15), (200, 5)], [])"
    by (simp add: flows_rows_def ex_store_def incident_out_def clamp_cov_def select_edges_def
        order_desc_def)
  have h: "flows_for_grid ex_store ex_meta 2021 100 ''out'' 2 0 =
     Inr \<lparr>center = ex_meta 100,
          out_edges = [\<lparr>fe_o_grid = 100, fe_d_grid = 200, fe_num_total = 5,
                        fe_o = ex_meta 100, fe_d = ex_meta 200\<rparr>],
          in_edges = []\<rparr>"
    by (simp add: flows_for_grid_def rows coord_def ex_meta_def Let_def)
  from flows_topk_and_metadata [OF h] have "ex_meta 200 \<noteq> None" by simp
  with h rows show ?thesis by (simp add: ex_meta_def)
qed

theorem api_flows_year_modes_witness:
  "(100::int) \<noteq> 0 \<and> ''both'' \<in> {''out'', ''in'', ''both''} \<and> (0::int) \<le> 10
   \<and> api_flows ex_store ex_meta (YearNum 2018) 100 ''both'' 10 0 = IndexMissing [2018]
   \<and> (\<exists>data. api_flows ex_store ex_meta YearAll 100 ''both'' 10 0 = YearsResult data
          \<and> map fst data = [2021])"
proof -
  have h1: "(100::int) \<noteq> 0" by simp
  have h2: "''both'' \<in> {''out'', ''in'', ''both''}" by simp
  have h3: "(0::int) \<le> 10" by simp
  have av: "filter (edges_exist ex_store) YEARS = [2021]"
    by (simp add: edges_exist_def ex_store_def YEARS_def)
  have miss: "\<not> edges_exist ex_store 2018"
    by (simp add: edges_exist_def ex_store_def)
  note t = api_flows_year_modes [OF h1 h2 h3, of ex_store ex_meta 0 2018]
  from t miss have m: "api_flows ex_store ex_meta (YearNum 2018) 100 ''both'' 10 0 = IndexMissing [2018]"
    by blast
  from t av obtain data where
    "api_flows ex_store ex_meta YearAll 100 ''both'' 10 0 = YearsResult data"
    "map fst data = [2021]"
    by auto
  with m h1 h2 h3 show ?thesis by auto
qed


subsection \<open>Hourly series\<close>

lemma fill_slot_length:
  "fill_slot W (a, b, c) r = (a', b', c') \<Longrightarrow>
   length a' = length a \<and> length b' = length b \<and> length c' = length c"
  by (auto simp: fill_slot_def split: if_splits)

lemma foldl_fill_slot:
  assumes "length a = 24" "length b = 24" "length c = 24"
  shows "\<exists>a' b' c'. foldl (fill_slot W) (a, b, c) rs = (a', b', c')
     \<and> length a' = 24 \<and> length b' = 24 \<and> length c' = 24
     \<and> (\<forall>h < 24.
           (let ms = filter (\<lambda>r. h_week r \<in> set W \<and> h_hour r = int h) rs in
              if ms = [] then a' ! h = a ! h \<and> b' ! h = b ! h \<and> c' ! h = c ! h
              else a' ! h = h_out_total (last ms) \<and> b' ! h = h_in_total (last ms)
                 \<and> c' ! h = h_total (last ms)))"
proof (induction rs rule: rev_induct)
  case Nil
  with assms show ?case by simp
next
  case (snoc r rs)
  then obtain a' b' c' where
    f: "foldl (fill_slot W) (a, b, c) rs = (a', b', c')"
    and l: "length a' = 24" "length b' = 24" "length c' = 24"
    and v: "\<forall>h < 24.
           (let ms = filter (\<lambda>r. h_week r \<in> set W \<and> h_hour r = int h) rs in
              if ms = [] then a' ! h = a ! h \<and> b' ! h = b ! h \<and> c' ! h = c ! h
              else a' ! h = h_out_total (last ms) \<and> b' ! h = h_in_total (last ms)
                 \<and> c' ! h = h_total (last ms))"
    by blast
  show ?case
  proof (cases "h_week r \<in> set W \<and> 0 \<le> h_hour r \<and> h_hour r < 24")
    case False
    then have st: "foldl (fill_slot W) (a, b, c) (rs @ [r]) = (a', b', c')"
      by (auto simp: f fill_slot_def)
    have same: "\<And>h. h < 24 \<Longrightarrow>
        filter (\<lambda>r. h_week r \<in> set W \<and> h_hour r = int h) (rs @ [r])
      = filter (\<lambda>r. h_week r \<in> set W \<and> h_hour r = int h) rs"
      using False by auto
    show ?thesis
      apply (rule exI[of _ a'], rule exI[of _ b'], rule exI[of _ c'])
      using st l v same by simp
  next
    case True
    let ?k = "nat (h_hour r)"
    have k: "?k < 24" "int ?k = h_hour r" using True by arith+
    have st: "foldl (fill_slot W) (a, b, c) (rs @ [r])
        = (a'[?k := h_out_total r], b'[?k := h_in_total r], c'[?k := h_total r])"
      using True by (simp add: f fill_slot_def)
    have vals: "\<forall>h < 24.
           (let ms = filter (\<lambda>r. h_week r \<in> set W \<and> h_hour r = int h) (rs @ [r]) in
              if ms = [] then (a'[?k := h_out_total r]) ! h = a ! h
                  \<and> (b'[?k := h_in_total r]) ! h = b ! h \<and> (c'[?k := h_total r]) ! h = c ! h
              else (a'[?k := h_out_total r]) ! h = h_out_total (last ms)
                 \<and> (b'[?k := h_in_total r]) ! h = h_in_total (last ms)
                 \<and> (c'[?k := h_total r]) ! h = h_total (last ms))"
    proof (intro allI impI)
      fix h :: nat assume h: "h < 24"
      show "(let ms = filter (\<lambda>r. h_week r \<in> set W \<and> h_hour r = int h) (rs @ [r]) in
              if ms = [] then (a'[?k := h_out_total r]) ! h = a ! h
                  \<and> (b'[?k := h_in_total r]) ! h = b ! h \<and> (c'[?k := h_total r]) ! h = c ! h
              else (a'[?k := h_out_total r]) ! h = h_out_total (last ms)
                 \<and> (b'[?k := h_in_total r]) ! h = h_in_total (last ms)
                 \<and> (c'[?k := h_total r]) ! h = h_total (last ms))"
      proof (cases "h = ?k")
        case True
        have ua: "a'[?k := h_out_total r] ! ?k = h_out_total r"
          by (rule nth_list_update_eq, unfold l, rule k(1))
        have ub: "b'[?k := h_in_total r] ! ?k = h_in_total r"
          by (rule nth_list_update_eq, unfold l, rule k(1))
        have uc: "c'[?k := h_total r] ! ?k = h_total r"
          by (rule nth_list_update_eq, unfold l, rule k(1))
        from k(2) \<open>h_week r \<in> set W \<and> 0 \<le> h_hour r \<and> h_hour r < 24\<close>
        show ?thesis unfolding True Let_def by (simp add: ua ub uc)
      next
        case False
        then have ne: "h_hour r \<noteq> int h" using k by auto
        from v h have "(let ms = filter (\<lambda>r. h_week r \<in> set W \<and> h_hour r = int h) rs in
              if ms = [] then a' ! h = a ! h \<and> b' ! h = b ! h \<and> c' ! h = c ! h
              else a' ! h = h_out_total (last ms) \<and> b' ! h = h_in_total (last ms)
                 \<and> c' ! h = h_total (last ms))" by blast
        with False ne show ?thesis by (simp add: Let_def)
      qed
    qed
    show ?thesis
      apply (rule exI[of _ "a'[?k := h_out_total r]"], rule exI[of _ "b'[?k := h_in_total r]"],
          rule exI[of _ "c'[?k := h_total r]"])
      using st l vals by simp
  qed
qed

lemma hd_sort_Min:
  fixes xs :: "int list"
  assumes "xs \<noteq> []"
  shows "take 1 (sort xs) = [Min (set xs)]"
proof -
  from assms have "sort xs \<noteq> []" by (metis length_0_conv length_sort)
  then obtain y ys where ys: "sort xs = y # ys" by (cases "sort xs") auto
  have "sorted (y # ys)" using sorted_sort[of xs] ys by simp
  then have le: "\<forall>z \<in> set ys. y \<le> z" by simp
  have s: "set xs = set (y # ys)" using ys by (metis set_sort)
  have "Min (set xs) = y"
    unfolding s by (rule Min_eqI) (use le in auto)
  with ys show ?thesis by simp
qed

lemma year_series_weeks:
  "take 1 (sort (remdups (map h_week (grid_hourly_rows rows g))))
     = (if filter (\<lambda>r. h_grid_id r = g) rows = [] then [] else [earliest_week rows g])"
proof (cases "filter (\<lambda>r. h_grid_id r = g) rows = []")
  case True
  then show ?thesis by (simp add: grid_hourly_rows_def)
next
  case False
  moreover have "length (grid_hourly_rows rows g) = length (filter (\<lambda>r. h_grid_id r = g) rows)"
    by (simp add: grid_hourly_rows_def)
  ultimately have "grid_hourly_rows rows g \<noteq> []" by (metis length_0_conv)
  then have ne: "remdups (map h_week (grid_hourly_rows rows g)) \<noteq> []"
    by simp
  have "set (remdups (map h_week (grid_hourly_rows rows g)))
      = set (map h_week (filter (\<lambda>r. h_grid_id r = g) rows))"
    by (simp add: grid_hourly_rows_def)
  with hd_sort_Min[OF ne] False show ?thesis by (simp add: earliest_week_def)
qed

lemma year_series_char:
  "\<exists>a b c. year_series rows g = \<lparr>hs_out = [a], hs_in = [b], hs_total = [c]\<rparr>
     \<and> length a = 24 \<and> length b = 24 \<and> length c = 24
     \<and> (\<forall>h < 24.
          (let ms = filter (\<lambda>r. h_grid_id r = g \<and> h_week r = earliest_week rows g
                               \<and> h_hour r = int h) rows in
             if ms = [] then a ! h = 0 \<and> b ! h = 0 \<and> c ! h = 0
             else \<exists>r \<in> set ms. a ! h = h_out_total r \<and> b ! h = h_in_total r \<and> c ! h = h_total r))"
proof -
  define rs where "rs = grid_hourly_rows rows g"
  define W where "W = take 1 (sort (remdups (map h_week rs)))"
  define z where "z = replicate 24 (0::rat)"
  have lz: "length z = 24" unfolding z_def by (rule length_replicate)
  have zz: "\<And>h. h < 24 \<Longrightarrow> z ! h = 0" unfolding z_def by (rule nth_replicate)
  from foldl_fill_slot[OF lz lz lz, of W rs] obtain a b c where
    f: "foldl (fill_slot W) (z, z, z) rs = (a, b, c)"
    and l: "length a = 24" "length b = 24" "length c = 24"
    and v: "\<forall>h < 24.
           (let ms = filter (\<lambda>r. h_week r \<in> set W \<and> h_hour r = int h) rs in
              if ms = [] then a ! h = z ! h \<and> b ! h = z ! h \<and> c ! h = z ! h
              else a ! h = h_out_total (last ms) \<and> b ! h = h_in_total (last ms)
                 \<and> c ! h = h_total (last ms))"
    by blast
  have ys: "year_series rows g = \<lparr>hs_out = [a], hs_in = [b], hs_total = [c]\<rparr>"
    unfolding year_series_def Let_def rs_def[symmetric] W_def[symmetric] z_def[symmetric] f
    by (simp only: prod.case)
  have Weq: "W = (if filter (\<lambda>r. h_grid_id r = g) rows = [] then [] else [earliest_week rows g])"
    unfolding W_def rs_def by (rule year_series_weeks)
  have vals: "\<forall>h < 24.
          (let ms = filter (\<lambda>r. h_grid_id r = g \<and> h_week r = earliest_week rows g
                               \<and> h_hour r = int h) rows in
             if ms = [] then a ! h = 0 \<and> b ! h = 0 \<and> c ! h = 0
             else \<exists>r \<in> set ms. a ! h = h_out_total r \<and> b ! h = h_in_total r \<and> c ! h = h_total r)"
  proof (intro allI impI)
    fix h :: nat assume h: "h < 24"
    let ?ms = "filter (\<lambda>r. h_grid_id r = g \<and> h_week r = earliest_week rows g
                               \<and> h_hour r = int h) rows"
    let ?ms' = "filter (\<lambda>r. h_week r \<in> set W \<and> h_hour r = int h) rs"
    have seteq: "set ?ms' = set ?ms"
      unfolding Weq rs_def by (auto simp: grid_hourly_rows_def filter_empty_conv)
    from v h have vh: "if ?ms' = [] then a ! h = z ! h \<and> b ! h = z ! h \<and> c ! h = z ! h
              else a ! h = h_out_total (last ?ms') \<and> b ! h = h_in_total (last ?ms')
                 \<and> c ! h = h_total (last ?ms')"
      unfolding Let_def by blast
    show "(let ms = ?ms in
             if ms = [] then a ! h = 0 \<and> b ! h = 0 \<and> c ! h = 0
             else \<exists>r \<in> set ms. a ! h = h_out_total r \<and> b ! h = h_in_total r \<and> c ! h = h_total r)"
    proof (cases "?ms = []")
      case True
      with seteq have e: "?ms' = []" by (metis set_empty)
      from vh have "a ! h = z ! h \<and> b ! h = z ! h \<and> c ! h = z ! h"
        unfolding e by (simp only: if_True)
      then have "a ! h = 0 \<and> b ! h = 0 \<and> c ! h = 0" unfolding zz[OF h] .
      with True show ?thesis by (simp add: Let_def)
    next
      case False
      with seteq have ne: "?ms' \<noteq> []" by (metis set_empty)
      then have m: "last ?ms' \<in> set ?ms" using seteq last_in_set by blast
      from vh ne have "a ! h = h_out_total (last ?ms') \<and> b ! h = h_in_total (last ?ms')
                 \<and> c ! h = h_total (last ?ms')" by (simp only: if_False)
      with m have "\<exists>r \<in> set ?ms. a ! h = h_out_total r \<and> b ! h = h_in_total r \<and> c ! h = h_total r"
        by blast
      with False show ?thesis unfolding Let_def by (simp only: if_False)
    qed
  qed
  from ys l vals show ?thesis by blast
qed

lemma hourly_fold_lookup:
  "foldl (\<lambda>out y. case hourly st y of None \<Rightarrow> out | Some rows \<Rightarrow> out(y \<mapsto> year_series rows g)) m ys y
    = (if y \<in> set ys then (case hourly st y of None \<Rightarrow> m y | Some rows \<Rightarrow> Some (year_series rows g))
       else m y)"
  by (induction ys arbitrary: m) (auto split: option.splits)

lemma hourly_series_for_grid_lookup:
  "hourly_series_for_grid st g years y
    = (if y \<in> set (if years = [] then YEARS else years)
       then map_option (\<lambda>rows. year_series rows g) (hourly st y) else None)"
  by (simp add: hourly_series_for_grid_def hourly_fold_lookup split: option.splits)

lemma api_hourly_loop_ok:
  assumes "set ys \<subseteq> set YEARS"
  shows "\<exists>out'. api_hourly_loop st g ys out = Inr out'
     \<and> (\<forall>y. out' y = (if y \<in> set ys \<and> hourly st y \<noteq> None
                       then map_option (\<lambda>rows. year_series rows g) (hourly st y) else out y))"
  using assms
proof (induction ys arbitrary: out)
  case Nil
  then show ?case by simp
next
  case (Cons y ys)
  from Cons.prems have y: "y \<in> set YEARS" and ys: "set ys \<subseteq> set YEARS" by simp_all
  show ?case
  proof (cases "hourly st y")
    case None
    with Cons.IH[OF ys, of out] show ?thesis by auto
  next
    case (Some rows)
    have lk: "hourly_series_for_grid st g [] y = Some (year_series rows g)"
      using y Some by (simp add: hourly_series_for_grid_lookup)
    from Cons.IH[OF ys, of "out(y \<mapsto> year_series rows g)"] obtain out' where
      o: "api_hourly_loop st g ys (out(y \<mapsto> year_series rows g)) = Inr out'"
      "\<forall>z. out' z = (if z \<in> set ys \<and> hourly st z \<noteq> None
                       then map_option (\<lambda>rows. year_series rows g) (hourly st z)
                       else (out(y \<mapsto> year_series rows g)) z)" by blast
    have "api_hourly_loop st g (y # ys) out = Inr out'"
      using Some lk o(1) by simp
    moreover have "\<forall>z. out' z = (if z \<in> set (y # ys) \<and> hourly st z \<noteq> None
                       then map_option (\<lambda>rows. year_series rows g) (hourly st z) else out z)"
      using o(2) Some by auto
    ultimately show ?thesis by blast
  qed
qed

text \<open>
  C6. A year without hourly artifact has no entry in the result of \<open>hourly_series_for_grid\<close>.
  A requested year with an hourly artifact has an entry whose out, in and total each hold
  one sequence of length 24; at every hour the three values are those of a row of the grid
  in its earliest ISO week at that hour, and zero when there is no such row, so rows of
  later weeks never contribute. \<open>api_hourly\<close> for a grid id answers with exactly the entries
  of the years of \<open>YEARS\<close> that have an hourly artifact.
\<close>

theorem hourly_series_earliest_week:
  "(hourly st y = None \<longrightarrow> hourly_series_for_grid st g years y = None)
   \<and> (\<forall>rows. hourly st y = Some rows \<and> y \<in> set (if years = [] then YEARS else years) \<longrightarrow>
         (\<exists>a b c. hourly_series_for_grid st g years y
                      = Some \<lparr>hs_out = [a], hs_in = [b], hs_total = [c]\<rparr>
            \<and> length a = 24 \<and> length b = 24 \<and> length c = 24
            \<and> (\<forall>h < 24.
                 (let ms = filter (\<lambda>r. h_grid_id r = g \<and> h_week r = earliest_week rows g
                                      \<and> h_hour r = int h) rows in
                    if ms = [] then a ! h = 0 \<and> b ! h = 0 \<and> c ! h = 0
                    else \<exists>r \<in> set ms. a ! h = h_out_total r \<and> b ! h = h_in_total r
                                     \<and> c ! h = h_total r))))
   \<and> (g \<noteq> 0 \<longrightarrow>
         (\<exists>out. api_hourly st g = HourlyResult out
            \<and> (\<forall>z. out z = (if z \<in> set YEARS then hourly_series_for_grid st g [] z else None))
            \<and> dom out = {z \<in> set YEARS. hourly st z \<noteq> None}))"
proof (intro conjI)
  show "hourly st y = None \<longrightarrow> hourly_series_for_grid st g years y = None"
    by (simp add: hourly_series_for_grid_lookup)
next
  show "\<forall>rows. hourly st y = Some rows \<and> y \<in> set (if years = [] then YEARS else years) \<longrightarrow>
         (\<exists>a b c. hourly_series_for_grid st g years y
                      = Some \<lparr>hs_out = [a], hs_in = [b], hs_total = [c]\<rparr>
            \<and> length a = 24 \<and> length b = 24 \<and> length c = 24
            \<and> (\<forall>h < 24.
                 (let ms = filter (\<lambda>r. h_grid_id r = g \<and> h_week r = earliest_week rows g
                                      \<and> h_hour r = int h) rows in
                    if ms = [] then a ! h = 0 \<and> b ! h = 0 \<and> c ! h = 0
                    else \<exists>r \<in> set ms. a ! h = h_out_total r \<and> b ! h = h_in_total r
                                     \<and> c ! h = h_total r)))"
  proof (intro allI impI)
    fix rows
    assume a: "hourly st y = Some rows \<and> y \<in> set (if years = [] then YEARS else years)"
    then have "hourly_series_for_grid st g years y = Some (year_series rows g)"
      unfolding hourly_series_for_grid_lookup by simp
    with year_series_char[of rows g]
    show "\<exists>a b c. hourly_series_for_grid st g years y
                      = Some \<lparr>hs_out = [a], hs_in = [b], hs_total = [c]\<rparr>
            \<and> length a = 24 \<and> length b = 24 \<and> length c = 24
            \<and> (\<forall>h < 24.
                 (let ms = filter (\<lambda>r. h_grid_id r = g \<and> h_week r = earliest_week rows g
                                      \<and> h_hour r = int h) rows in
                    if ms = [] then a ! h = 0 \<and> b ! h = 0 \<and> c ! h = 0
                    else \<exists>r \<in> set ms. a ! h = h_out_total r \<and> b ! h = h_in_total r
                                     \<and> c ! h = h_total r))"
      by (elim exE conjE) (intro exI conjI, simp, assumption+)
  qed
next
  show "g \<noteq> 0 \<longrightarrow>
         (\<exists>out. api_hourly st g = HourlyResult out
            \<and> (\<forall>z. out z = (if z \<in> set YEARS then hourly_series_for_grid st g [] z else None))
            \<and> dom out = {z \<in> set YEARS. hourly st z \<noteq> None})"
  proof
    assume g: "g \<noteq> 0"
    from api_hourly_loop_ok[of YEARS st g Map.empty] obtain out where
      o: "api_hourly_loop st g YEARS Map.empty = Inr out"
      and v: "\<forall>z. out z = (if z \<in> set YEARS \<and> hourly st z \<noteq> None
                       then map_option (\<lambda>rows. year_series rows g) (hourly st z) else None)"
      by auto
    have r: "api_hourly st g = HourlyResult out" using g o by (simp add: api_hourly_def)
    have l: "\<forall>z. out z = (if z \<in> set YEARS then hourly_series_for_grid st g [] z else None)"
    proof
      fix z show "out z = (if z \<in> set YEARS then hourly_series_for_grid st g [] z else None)"
        unfolding hourly_series_for_grid_lookup using v by (cases "hourly st z") simp_all
    qed
    have d: "dom out = {z \<in> set YEARS. hourly st z \<noteq> None}"
    proof (rule set_eqI)
      fix z show "z \<in> dom out \<longleftrightarrow> z \<in> {z \<in> set YEARS. hourly st z \<noteq> None}"
        using v by (cases "hourly st z") (simp_all add: dom_def)
    qed
    from r l d show "\<exists>out. api_hourly st g = HourlyResult out
            \<and> (\<forall>z. out z = (if z \<in> set YEARS then hourly_series_for_grid st g [] z else None))
            \<and> dom out = {z \<in> set YEARS. hourly st z \<noteq> None}" by blast
  qed
qed

theorem hourly_series_earliest_week_witness:
  "hourly ex_hourly_store 2018 = None
   \<and> hourly_series_for_grid ex_hourly_store 100 [] 2018 = None
   \<and> hourly ex_hourly_store 2021 = Some ex_hourly_rows
   \<and> earliest_week ex_hourly_rows 100 = 2
   \<and> (\<exists>a b c. hourly_series_for_grid ex_hourly_store 100 [] 2021
                  = Some \<lparr>hs_out = [a], hs_in = [b], hs_total = [c]\<rparr>
        \<and> length a = 24 \<and> a ! 7 = 4 \<and> b ! 7 = 1 \<and> c ! 7 = 5
        \<and> a ! 5 = 0 \<and> b ! 5 = 0 \<and> c ! 5 = 0)
   \<and> (\<exists>out. api_hourly ex_hourly_store 100 = HourlyResult out \<and> dom out = {2021})"
proof -
  note t = hourly_series_earliest_week [of ex_hourly_store _ 100 "[]"]
  have n: "hourly ex_hourly_store 2018 = None" by (simp add: ex_hourly_store_def)
  have s: "hourly ex_hourly_store 2021 = Some ex_hourly_rows" by (simp add: ex_hourly_store_def)
  have y: "(2021::int) \<in> set (if ([]::int list) = [] then YEARS else [])" by (simp add: YEARS_def)
  have ew: "earliest_week ex_hourly_rows 100 = 2"
    by (simp add: earliest_week_def ex_hourly_rows_def)
  from t[of 2018] n have c1: "hourly_series_for_grid ex_hourly_store 100 [] 2018 = None" by blast
  from t[of 2021] s y obtain a b c where
    r: "hourly_series_for_grid ex_hourly_store 100 [] 2021
                  = Some \<lparr>hs_out = [a], hs_in = [b], hs_total = [c]\<rparr>"
    and l: "length a = 24"
    and v: "\<forall>h < 24.
                 (let ms = filter (\<lambda>r. h_grid_id r = 100 \<and> h_week r = earliest_week ex_hourly_rows 100
                                      \<and> h_hour r = int h) ex_hourly_rows in
                    if ms = [] then a ! h = 0 \<and> b ! h = 0 \<and> c ! h = 0
                    else \<exists>r \<in> set ms. a ! h = h_out_total r \<and> b ! h = h_in_total r
                                     \<and> c ! h = h_total r)"
    by blast
  from v[rule_format, of 7] have "(let ms = filter (\<lambda>r. h_grid_id r = 100 \<and> h_week r = earliest_week ex_hourly_rows 100
                                      \<and> h_hour r = int 7) ex_hourly_rows in
                    if ms = [] then a ! 7 = 0 \<and> b ! 7 = 0 \<and> c ! 7 = 0
                    else \<exists>r \<in> set ms. a ! 7 = h_out_total r \<and> b ! 7 = h_in_total r
                                     \<and> c ! 7 = h_total r)" by simp
  then have v7: "a ! 7 = 4 \<and> b ! 7 = 1 \<and> c ! 7 = 5"
    unfolding ew by (simp add: ex_hourly_rows_def)
  from v[rule_format, of 5] have "(let ms = filter (\<lambda>r. h_grid_id r = 100 \<and> h_week r = earliest_week ex_hourly_rows 100
                                      \<and> h_hour r = int 5) ex_hourly_rows in
                    if ms = [] then a ! 5 = 0 \<and> b ! 5 = 0 \<and> c ! 5 = 0
                    else \<exists>r \<in> set ms. a ! 5 = h_out_total r \<and> b ! 5 = h_in_total r
                                     \<and> c ! 5 = h_total r)" by simp
  then have v5: "a ! 5 = 0 \<and> b ! 5 = 0 \<and> c ! 5 = 0"
    unfolding ew by (simp add: ex_hourly_rows_def)
  have g: "(100::int) \<noteq> 0" by simp
  from t[of 2021] g obtain out where
    o: "api_hourly ex_hourly_store 100 = HourlyResult out"
    and d: "dom out = {z \<in> set YEARS. hourly ex_hourly_store z \<noteq> None}" by blast
  have "{z \<in> set YEARS. hourly ex_hourly_store z \<noteq> None} = {2021}"
    by (auto simp: YEARS_def ex_hourly_store_def)
  with d have d': "dom out = {2021}" by simp
  from n c1 s ew r l v7 v5 o d' show ?thesis by blast
qed

subsection \<open>Low-traffic filter\<close>

lemma ratio_at_least_antitone:
  "t1 \<le> t2 \<Longrightarrow> set (ratio_at_least zr t2) \<subseteq> set (ratio_at_least zr t1)"
  by (auto simp: ratio_at_least_def)

lemma low_filter_query_antitone:
  assumes "p1 \<le> p2"
  shows "set (low_filter_query up pool rows weeks lv p2) \<subseteq> set (low_filter_query up pool rows weeks lv p1)"
proof -
  from assms have "p1 / 100 \<le> p2 / 100" by simp
  then show ?thesis
    unfolding low_filter_query_def Let_def
    by (simp add: ratio_at_least_antitone)
qed

lemma bad_set_unfold:
  "low_filter_bad_set st up pool fy lv (Some p) =
     (if pool \<noteq> [] \<and> max 0 (min 100 p) > 0 then
        (case choose_hourly_year st fy of
           None \<Rightarrow> []
         | Some y \<Rightarrow>
             (case hourly st y of
                None \<Rightarrow> []
              | Some rows \<Rightarrow>
                  if sort (remdups (map h_week rows)) \<noteq> []
                  then low_filter_query up pool rows (sort (remdups (map h_week rows)))
                         (if lv < 0 then 0 else lv) (max 0 (min 100 p))
                  else []))
      else [])"
  by (auto simp: low_filter_bad_set_def Let_def split: option.splits)

lemma bad_set_antitone:
  assumes "0 < p1" "p1 \<le> p2"
  shows "set (low_filter_bad_set st up pool fy lv (Some p2)) \<subseteq> set (low_filter_bad_set st up pool fy lv (Some p1))"
proof -
  define c1 where "c1 = max 0 (min 100 p1)"
  define c2 where "c2 = max 0 (min 100 p2)"
  have c: "c1 \<le> c2" unfolding c1_def c2_def using assms(2) by (simp add: max_def min_def)
  have p: "0 < c1" unfolding c1_def using assms(1) by (simp add: max_def min_def)
  from p c have p2: "0 < c2" by (rule less_le_trans)
  note q = low_filter_query_antitone[OF c]
  have e1: "low_filter_bad_set st up pool fy lv (Some p1) =
     (if pool \<noteq> [] then
        (case choose_hourly_year st fy of
           None \<Rightarrow> []
         | Some y \<Rightarrow>
             (case hourly st y of
                None \<Rightarrow> []
              | Some rows \<Rightarrow>
                  if sort (remdups (map h_week rows)) \<noteq> []
                  then low_filter_query up pool rows (sort (remdups (map h_week rows)))
                         (if lv < 0 then 0 else lv) c1
                  else []))
      else [])"
    unfolding bad_set_unfold c1_def[symmetric] using p by simp
  have e2: "low_filter_bad_set st up pool fy lv (Some p2) =
     (if pool \<noteq> [] then
        (case choose_hourly_year st fy of
           None \<Rightarrow> []
         | Some y \<Rightarrow>
             (case hourly st y of
                None \<Rightarrow> []
              | Some rows \<Rightarrow>
                  if sort (remdups (map h_week rows)) \<noteq> []
                  then low_filter_query up pool rows (sort (remdups (map h_week rows)))
                         (if lv < 0 then 0 else lv) c2
                  else []))
      else [])"
    unfolding bad_set_unfold c2_def[symmetric] using p2 by simp
  show ?thesis
  proof (cases "choose_hourly_year st fy")
    case None
    have "low_filter_bad_set st up pool fy lv (Some p2) = []" by (simp add: e2 None)
    then show ?thesis by simp
  next
    case y: (Some y)
    show ?thesis
    proof (cases "hourly st y")
      case None
      have "low_filter_bad_set st up pool fy lv (Some p2) = []" by (simp add: e2 y None)
      then show ?thesis by simp
    next
      case (Some rows)
      let ?w = "sort (remdups (map h_week rows))"
      let ?lv = "if lv < 0 then 0 else lv"
      show ?thesis
      proof (cases "pool \<noteq> [] \<and> ?w \<noteq> []")
        case True
        have a2: "low_filter_bad_set st up pool fy lv (Some p2) = low_filter_query up pool rows ?w ?lv c2"
          using True by (simp add: e2 y Some)
        have a1: "low_filter_bad_set st up pool fy lv (Some p1) = low_filter_query up pool rows ?w ?lv c1"
          using True by (simp add: e1 y Some)
        show ?thesis unfolding a1 a2 by (rule q)
      next
        case False
        have "low_filter_bad_set st up pool fy lv (Some p2) = []"
          using False by (auto simp: e2 y Some)
        then show ?thesis by simp
      qed
    qed
  qed
qed

lemma bad_set_disabled:
  "p \<le> 0 \<Longrightarrow> low_filter_bad_set st up pool fy lv (Some p) = []"
  "low_filter_bad_set st up pool fy lv None = []"
  by (simp_all add: low_filter_bad_set_def Let_def max_def min_def)

text \<open>
  C3 (amended). The flagged set shrinks as \<open>low_pct\<close> grows: for \<open>0 < p1 \<le> p2\<close> and all
  other inputs fixed, every grid flagged at \<open>p2\<close> is flagged at \<open>p1\<close>, and every grid kept in
  the pool at \<open>p1\<close> is kept at \<open>p2\<close>.
\<close>

theorem low_traffic_antitone_in_low_pct:
  assumes "0 < p1" "p1 \<le> p2"
  shows "set (low_traffic_grids st up pool fy lv (Some p2))
           \<subseteq> set (low_traffic_grids st up pool fy lv (Some p1))
       \<and> set (pool_after_low_filter st up pool fy lv (Some p1))
           \<subseteq> set (pool_after_low_filter st up pool fy lv (Some p2))"
  using bad_set_antitone[OF assms, of st up pool fy lv]
  unfolding low_traffic_grids_def pool_after_low_filter_def by auto

theorem low_traffic_monotone_counterexample:
  "(50::rat) < 100
   \<and> 100 \<in> set (low_traffic_grids ex_hourly_store True [100] (Some 2021) 0 (Some 50))
   \<and> 100 \<notin> set (low_traffic_grids ex_hourly_store True [100] (Some 2021) 0 (Some 100))"
proof -
  have a: "low_traffic_grids ex_hourly_store True [100] (Some 2021) 0 (Some 50) = [100]"
    by code_simp
  have b: "low_traffic_grids ex_hourly_store True [100] (Some 2021) 0 (Some 100) = []"
    by code_simp
  show ?thesis unfolding a b by simp
qed

theorem low_traffic_antitone_in_low_pct_witness:
  "(0::rat) < 50 \<and> (50::rat) \<le> 100
   \<and> set (low_traffic_grids ex_hourly_store True [100, 200, 300] (Some 2021) 0 (Some 100)) = {300}
   \<and> set (low_traffic_grids ex_hourly_store True [100, 200, 300] (Some 2021) 0 (Some 50)) = {100, 200, 300}"
proof -
  have h1: "(0::rat) < 50" and h2: "(50::rat) \<le> 100" by simp_all
  have a: "low_traffic_grids ex_hourly_store True [100, 200, 300] (Some 2021) 0 (Some 50) = [100, 200, 300]"
    by code_simp
  have b: "set (low_traffic_grids ex_hourly_store True [100, 200, 300] (Some 2021) 0 (Some 100)) \<supseteq> {300}"
    by code_simp
  from low_traffic_antitone_in_low_pct [OF h1 h2, of ex_hourly_store True "[100, 200, 300]" "Some 2021" 0]
  have "set (low_traffic_grids ex_hourly_store True [100, 200, 300] (Some 2021) 0 (Some 100))
         \<subseteq> {100, 200, 300}" unfolding a by simp
  moreover have "100 \<notin> set (low_traffic_grids ex_hourly_store True [100, 200, 300] (Some 2021) 0 (Some 100))"
    by code_simp
  moreover have "200 \<notin> set (low_traffic_grids ex_hourly_store True [100, 200, 300] (Some 2021) 0 (Some 100))"
    by code_simp
  ultimately show ?thesis using a b h1 h2 by auto
qed













end
